theory Spec2Isabelle
  imports Complex_Main
begin

section \<open>Strings\<close>

text \<open>
  Python strings are modelled as lists of code points below 256 (the type \<open>char\<close>).
  \<open>isspace\<close> is \<^verbatim>\<open>str.isspace\<close> on one such code point: the characters that
  \<^verbatim>\<open>str.strip()\<close> removes. \<open>lower_char\<close> is \<^verbatim>\<open>str.lower\<close> on one code
  point: A to Z and the upper-case letters of Latin-1 move up by 32.
\<close>

definition isspace :: "char \<Rightarrow> bool" where
  "isspace c =
     (let n = (of_char c :: nat)
      in (9 \<le> n \<and> n \<le> 13) \<or> (28 \<le> n \<and> n \<le> 32) \<or> n = 133 \<or> n = 160)"

definition lower_char :: "char \<Rightarrow> char" where
  "lower_char c =
     (let n = (of_char c :: nat)
      in if (65 \<le> n \<and> n \<le> 90) \<or> (192 \<le> n \<and> n \<le> 222 \<and> n \<noteq> 215)
         then char_of (n + 32) else c)"

definition strip :: "string \<Rightarrow> string" where
  "strip s = rev (dropWhile isspace (rev (dropWhile isspace s)))"

definition lower :: "string \<Rightarrow> string" where
  "lower s = map lower_char s"

text \<open>
  \<^verbatim>\<open>s.replace(old, new)\<close> for a non-empty \<open>old\<close>: every non-overlapping occurrence,
  from the left. (With an empty \<open>old\<close> the string is returned as it is; the source never
  passes one.)
\<close>

fun replace :: "string \<Rightarrow> string \<Rightarrow> string \<Rightarrow> string" where
  "replace old new [] = []"
| "replace old new (c # s) =
     (if old \<noteq> [] \<and> take (length old) (c # s) = old
      then new @ replace old new (drop (length old) (c # s))
      else c # replace old new s)"

text \<open>\<^verbatim>\<open>Path.suffix\<close> of a file name: the part from the last dot on, if any.\<close>

definition suffix :: "string \<Rightarrow> string" where
  "suffix p =
     (if CHR ''.'' \<in> set p then CHR ''.'' # rev (takeWhile (\<lambda>c. c \<noteq> CHR ''.'') (rev p))
      else [])"

section \<open>Tables\<close>

text \<open>
  A value of a pandas table: a missing value (\<open>NaN\<close>, \<open>NaT\<close>), a string, an integer,
  a float (idealised as a real number) or a timestamp (an ordinal). A cell holds such a
  value, and so does a column label: the label of a column is usually a string, but a
  numeric or a date header of a spreadsheet gives a number or a timestamp as label.
\<close>

datatype cell = Null | Text string | Integer int | Floating real | Timestamp int

definition is_name :: "cell \<Rightarrow> bool" where
  "is_name c = (case c of Text s \<Rightarrow> True | _ \<Rightarrow> False)"

text \<open>
  A \<^verbatim>\<open>DataFrame\<close>: the column labels in order (pandas allows a label to occur more
  than once) and the rows in order, each with its index label. A cell a row is too short to
  hold reads as missing.
\<close>

record frame =
  columns :: "cell list"
  rows :: "(int \<times> cell list) list"

definition empty_frame :: frame where
  "empty_frame = \<lparr>columns = [], rows = []\<rparr>"

text \<open>\<^verbatim>\<open>df.empty\<close>: an axis of length zero.\<close>

definition is_empty :: "frame \<Rightarrow> bool" where
  "is_empty df = (columns df = [] \<or> rows df = [])"

definition cell_at :: "cell list \<Rightarrow> nat \<Rightarrow> cell" where
  "cell_at r i = (if i < length r then r ! i else Null)"

definition set_cell :: "nat \<Rightarrow> cell \<Rightarrow> cell list \<Rightarrow> cell list" where
  "set_cell i v r =
     (if i < length r then r[i := v] else r @ replicate (i - length r) Null @ [v])"

text \<open>
  \<^verbatim>\<open>df[name]\<close> for a string \<open>name\<close>: a \<^verbatim>\<open>KeyError\<close> when no column has the
  label, a \<^verbatim>\<open>Series\<close> (the column's position) when exactly one has, and a
  \<^verbatim>\<open>DataFrame\<close> of all the columns with that label when several have.
\<close>

datatype selection = KeyMissing | Series nat | SubFrame "nat list"

definition positions :: "string \<Rightarrow> cell list \<Rightarrow> nat list" where
  "positions name cols = filter (\<lambda>i. cols ! i = Text name) [0..<length cols]"

definition getitem :: "cell list \<Rightarrow> string \<Rightarrow> selection" where
  "getitem cols name =
     (case positions name cols of
        [] \<Rightarrow> KeyMissing
      | [i] \<Rightarrow> Series i
      | ps \<Rightarrow> SubFrame ps)"

text \<open>
  \<^verbatim>\<open>astype(str)\<close> on one value. A string stays. What the conversion makes of any other
  value is the library's matter and a parameter here (\<open>py_str\<close>): \<open>Some s\<close> when the
  value becomes the string \<open>s\<close>, \<open>None\<close> when it stays missing. (A missing value
  becomes the string \<open>nan\<close> in an object column and stays missing in a column of the
  string dtype; which of the two a column read from a file is depends on the pandas
  version.)
\<close>

fun astype_str :: "(cell \<Rightarrow> string option) \<Rightarrow> cell \<Rightarrow> cell" where
  "astype_str py_str (Text s) = Text s"
| "astype_str py_str c = (case py_str c of Some s \<Rightarrow> Text s | None \<Rightarrow> Null)"

text \<open>
  \<^verbatim>\<open>.str.strip()\<close> and \<^verbatim>\<open>.str.lower()\<close> on one value: the string method on a string,
  missing for anything else.
\<close>

definition str_strip :: "cell \<Rightarrow> cell" where
  "str_strip c = (case c of Text s \<Rightarrow> Text (strip s) | _ \<Rightarrow> Null)"

definition str_lower :: "cell \<Rightarrow> cell" where
  "str_lower c = (case c of Text s \<Rightarrow> Text (lower s) | _ \<Rightarrow> Null)"

text \<open>
  The comparison \<^verbatim>\<open>==\<close> of one cell with a scalar: a missing value equals nothing,
  an integer and a float are compared as numbers, values of different kinds differ.
\<close>

fun py_eq :: "cell \<Rightarrow> cell \<Rightarrow> bool" where
  "py_eq (Text a) (Text b) = (a = b)"
| "py_eq (Integer a) (Integer b) = (a = b)"
| "py_eq (Integer a) (Floating b) = (of_int a = b)"
| "py_eq (Floating a) (Integer b) = (a = of_int b)"
| "py_eq (Floating a) (Floating b) = (a = b)"
| "py_eq (Timestamp a) (Timestamp b) = (a = b)"
| "py_eq _ _ = False"

text \<open>\<^verbatim>\<open>reset_index(drop=True)\<close>: the rows keep their order and are labelled from 0.\<close>

definition reset_index :: "frame \<Rightarrow> frame" where
  "reset_index df =
     df\<lparr>rows := zip (map int [0..<length (rows df)]) (map snd (rows df))\<rparr>"

text \<open>
  Python's name of the type of a value, and the message of the \<^verbatim>\<open>AttributeError\<close> for
  an attribute the value does not have.
\<close>

definition type_name :: "cell \<Rightarrow> string" where
  "type_name c =
     (case c of
        Null \<Rightarrow> ''float''
      | Text s \<Rightarrow> ''str''
      | Integer n \<Rightarrow> ''int''
      | Floating x \<Rightarrow> ''float''
      | Timestamp t \<Rightarrow> ''Timestamp'')"

definition no_attribute :: "string \<Rightarrow> string \<Rightarrow> string" where
  "no_attribute type_of attr =
     [CHR 0x27] @ type_of @ [CHR 0x27] @ '' object has no attribute ''
       @ [CHR 0x27] @ attr @ [CHR 0x27]"

section \<open>The loader\<close>

datatype error =
    FileNotFoundError string
  | ValueError string
  | AttributeError string
  | TypeError string
  | ReadError string

fun message :: "error \<Rightarrow> string" where
  "message (FileNotFoundError m) = m"
| "message (ValueError m) = m"
| "message (AttributeError m) = m"
| "message (TypeError m) = m"
| "message (ReadError m) = m"

subsection \<open>Column names\<close>

text \<open>
  \<^verbatim>\<open>df.columns = df.columns.str.strip().str.lower()\<close> (data_loader.py, line 197):
  every label that is a string is stripped, then lowercased; a label that is not a string
  becomes missing. \<open>clean_name\<close> is the transform on a name.
\<close>

definition clean_name :: "string \<Rightarrow> string" where
  "clean_name s = lower (strip s)"

definition clean_label :: "cell \<Rightarrow> cell" where
  "clean_label c = str_lower (str_strip c)"

definition clean_columns :: "frame \<Rightarrow> frame" where
  "clean_columns df = df\<lparr>columns := map clean_label (columns df)\<rparr>"

subsection \<open>Splitting the rows\<close>

text \<open>
  Lines 217 to 238 of \<^verbatim>\<open>load_unified_data\<close>. With a \<open>record_type\<close> column, its
  values go through \<^verbatim>\<open>astype(str).str.strip().str.lower()\<close> and are written back; the
  rows whose value then equals \<open>impact_link\<close> go to \<open>impact_links\<close>, the others to
  \<open>main_data\<close>, and both are re-indexed. When several columns carry the label,
  \<^verbatim>\<open>df['record_type']\<close> is a frame, which has no \<^verbatim>\<open>.str\<close>: the attribute access
  raises. Without the column, the table itself is the main data and the impact links are a
  fresh empty \<^verbatim>\<open>pd.DataFrame()\<close>.
\<close>

definition no_str_accessor :: string where
  "no_str_accessor = no_attribute ''DataFrame'' ''str''"

definition clean_record_type :: "(cell \<Rightarrow> string option) \<Rightarrow> nat \<Rightarrow> cell list \<Rightarrow> cell list" where
  "clean_record_type py_str i r =
     set_cell i (str_lower (str_strip (astype_str py_str (cell_at r i)))) r"

definition split_records ::
    "(cell \<Rightarrow> string option) \<Rightarrow> frame \<Rightarrow> error + frame \<times> frame" where
  "split_records py_str df =
     (if Text ''record_type'' \<in> set (columns df) then
        (case getitem (columns df) ''record_type'' of
           Series i \<Rightarrow>
             (let df1 = df\<lparr>rows := map (\<lambda>(l, r). (l, clean_record_type py_str i r)) (rows df)\<rparr>;
                  impact_links_mask = (\<lambda>(l, r). py_eq (cell_at r i) (Text ''impact_link''));
                  main_data = df1\<lparr>rows := filter (\<lambda>x. \<not> impact_links_mask x) (rows df1)\<rparr>;
                  impact_links = df1\<lparr>rows := filter impact_links_mask (rows df1)\<rparr>
              in Inr (reset_index main_data, reset_index impact_links))
         | _ \<Rightarrow> Inl (AttributeError no_str_accessor))
      else Inr (df, empty_frame))"

text \<open>
  The partition in the words of the specification. The value of a row's
  \<open>record_type\<close> cell, converted to a string, trimmed and lowercased; it is absent when
  the conversion leaves the cell missing. The impact-link rows are the rows, by their
  position in the source, whose value is exactly \<open>impact_link\<close>; the main-data rows are
  all the others. A row of either subset is the source row with that value in its
  \<open>record_type\<close> cell.
\<close>

definition trimmed_lowercased :: "(cell \<Rightarrow> string option) \<Rightarrow> cell \<Rightarrow> string option" where
  "trimmed_lowercased py_str c =
     (case c of
        Text s \<Rightarrow> Some (lower (strip s))
      | _ \<Rightarrow> map_option (\<lambda>s. lower (strip s)) (py_str c))"

definition impact_positions :: "(cell \<Rightarrow> string option) \<Rightarrow> nat \<Rightarrow> frame \<Rightarrow> nat list" where
  "impact_positions py_str i df =
     filter (\<lambda>k. trimmed_lowercased py_str (cell_at (snd (rows df ! k)) i) = Some ''impact_link'')
       [0..<length (rows df)]"

definition main_positions :: "(cell \<Rightarrow> string option) \<Rightarrow> nat \<Rightarrow> frame \<Rightarrow> nat list" where
  "main_positions py_str i df =
     filter (\<lambda>k. trimmed_lowercased py_str (cell_at (snd (rows df ! k)) i) \<noteq> Some ''impact_link'')
       [0..<length (rows df)]"

definition with_record_type :: "(cell \<Rightarrow> string option) \<Rightarrow> nat \<Rightarrow> cell list \<Rightarrow> cell list" where
  "with_record_type py_str i r =
     set_cell i (case trimmed_lowercased py_str (cell_at r i) of
                   Some s \<Rightarrow> Text s
                 | None \<Rightarrow> Null) r"

subsection \<open>Choosing the worksheet\<close>

text \<open>
  A parsed spreadsheet file (\<^verbatim>\<open>pd.ExcelFile\<close>): its worksheets in file order, each
  with its name. \<open>read_excel\<close> reads a sheet by name, \<open>read_excel_nrows\<close> only its
  first rows (\<^verbatim>\<open>nrows=10\<close>).
\<close>

type_synonym workbook = "(string \<times> frame) list"

definition sheet_names :: "workbook \<Rightarrow> string list" where
  "sheet_names wb = map fst wb"

definition read_excel :: "workbook \<Rightarrow> string \<Rightarrow> frame option" where
  "read_excel wb sheet_name = map_of wb sheet_name"

definition read_excel_nrows :: "workbook \<Rightarrow> string \<Rightarrow> nat \<Rightarrow> frame option" where
  "read_excel_nrows wb sheet_name n =
     map_option (\<lambda>df. df\<lparr>rows := take n (rows df)\<rparr>) (read_excel wb sheet_name)"

definition possible_sheet_names :: "string list" where
  "possible_sheet_names =
     [''data'', ''Sheet1'', ''unified_data'', ''ethiopia_fi'', ''main'', ''observations'']"

text \<open>
  Lines 156 to 161: the first name of the list that is a sheet of the file, in the order of
  the list. The result is the table read and the name of the sheet used.
\<close>

fun try_possible :: "workbook \<Rightarrow> string list \<Rightarrow> (frame \<times> string) option" where
  "try_possible wb [] = None"
| "try_possible wb (sheet_name # rest) =
     (if sheet_name \<in> set (sheet_names wb)
      then map_option (\<lambda>df. (df, sheet_name)) (read_excel wb sheet_name)
      else try_possible wb rest)"

text \<open>
  Lines 165 to 175: every sheet in file order; the first whose ten-row sample has a column
  named \<open>record_type\<close> or \<open>indicator\<close> is read whole. The column names are those of the
  file, as they are. A read that fails is skipped (\<^verbatim>\<open>except: continue\<close>).
\<close>

fun probe_sheets :: "workbook \<Rightarrow> string list \<Rightarrow> (frame \<times> string) option" where
  "probe_sheets wb [] = None"
| "probe_sheets wb (sheet_name # rest) =
     (case read_excel_nrows wb sheet_name 10 of
        None \<Rightarrow> probe_sheets wb rest
      | Some temp_df \<Rightarrow>
          if Text ''record_type'' \<in> set (columns temp_df)
               \<or> Text ''indicator'' \<in> set (columns temp_df)
          then (case read_excel wb sheet_name of
                  None \<Rightarrow> probe_sheets wb rest
                | Some df \<Rightarrow> Some (df, sheet_name))
          else probe_sheets wb rest)"

text \<open>Lines 146 to 181: the three steps in order; the last is the first sheet of the file.\<close>

definition resolve_sheet :: "workbook \<Rightarrow> (frame \<times> string) option" where
  "resolve_sheet wb =
     (case try_possible wb possible_sheet_names of
        Some r \<Rightarrow> Some r
      | None \<Rightarrow>
          (case probe_sheets wb (sheet_names wb) of
             Some r \<Rightarrow> Some r
           | None \<Rightarrow>
               (case sheet_names wb of
                  [] \<Rightarrow> None
                | first # _ \<Rightarrow> map_option (\<lambda>df. (df, first)) (read_excel wb first))))"

text \<open>
  The rule chain in the words of the specification, on sheet names: the first priority name
  that is a sheet, else the first sheet in file order with a marker column, else the first
  sheet.
\<close>

definition has_marker :: "workbook \<Rightarrow> string \<Rightarrow> bool" where
  "has_marker wb sheet_name =
     (case read_excel wb sheet_name of
        None \<Rightarrow> False
      | Some df \<Rightarrow>
          Text ''record_type'' \<in> set (columns df) \<or> Text ''indicator'' \<in> set (columns df))"

definition resolver_spec :: "string list \<Rightarrow> (string \<Rightarrow> bool) \<Rightarrow> string list \<Rightarrow> string option" where
  "resolver_spec priority marker names =
     (case find (\<lambda>p. p \<in> set names) priority of
        Some p \<Rightarrow> Some p
      | None \<Rightarrow>
          (case find marker names of
             Some n \<Rightarrow> Some n
           | None \<Rightarrow> (case names of [] \<Rightarrow> None | first # _ \<Rightarrow> Some first)))"

subsection \<open>Files and the three loaders\<close>

text \<open>
  The raw directory: its path and its files by name. A file is a spreadsheet or a delimited
  text file; the reader for the other kind raises on it. The log holds the records of
  \<^verbatim>\<open>logger.warning\<close> and \<^verbatim>\<open>logger.error\<close>, in order, without the pictograph that
  starts some messages; info records are left out.
\<close>

datatype raw_file = Spreadsheet workbook | Delimited frame

record directory =
  raw_dir :: string
  raw_files :: "string \<rightharpoonup> raw_file"

datatype log_record = Warning string | Error string

definition data_files :: "(string \<times> string) list" where
  "data_files =
     [(''unified_data'', ''ethiopia_fi_unified_data.xlsx''),
      (''reference_codes'', ''reference_codes.xlsx''),
      (''additional_data'', ''Additional Data Points Guide.xlsx'')]"

definition data_file :: "string \<Rightarrow> string" where
  "data_file name = (case map_of data_files name of Some filename \<Rightarrow> filename | None \<Rightarrow> [])"

definition file_exists :: "directory \<Rightarrow> string \<Rightarrow> bool" where
  "file_exists fs p = (raw_files fs p \<noteq> None)"

definition path_str :: "directory \<Rightarrow> string \<Rightarrow> string" where
  "path_str fs p = raw_dir fs @ ''/'' @ p"

definition ExcelFile :: "directory \<Rightarrow> string \<Rightarrow> error + workbook" where
  "ExcelFile fs p =
     (case raw_files fs p of
        None \<Rightarrow> Inl (FileNotFoundError p)
      | Some (Spreadsheet wb) \<Rightarrow> Inr wb
      | Some (Delimited df) \<Rightarrow> Inl (ReadError p))"

definition read_csv :: "directory \<Rightarrow> string \<Rightarrow> error + frame" where
  "read_csv fs p =
     (case raw_files fs p of
        None \<Rightarrow> Inl (FileNotFoundError p)
      | Some (Delimited df) \<Rightarrow> Inr df
      | Some (Spreadsheet wb) \<Rightarrow> Inl (ReadError p))"

text \<open>
  \<^verbatim>\<open>download_data\<close>: for each of the three data sets the spreadsheet if it exists, else
  the delimited file of the same name, else nothing but two error records. It returns the
  paths found (a dict, here in insertion order) and never raises.
\<close>

definition download_data :: "directory \<Rightarrow> log_record list \<times> (string \<times> string) list" where
  "download_data fs =
     (let found =
            map (\<lambda>(name, filename).
                   (let excel_path = filename;
                        csv_path = replace ''.xlsx'' ''.csv'' filename
                    in if file_exists fs excel_path then ([], [(name, excel_path)])
                       else if file_exists fs csv_path then ([], [(name, csv_path)])
                       else ([Error (''No data file found for: '' @ name),
                              Error (''Expected at: '' @ path_str fs excel_path @ '' or ''
                                     @ path_str fs csv_path)], [])))
              data_files;
          file_paths = concat (map snd found)
      in (concat (map fst found)
          @ (if file_paths \<noteq> [] then []
             else [Error ''No data files found!'',
                   Error (''Please place Excel files in: '' @ raw_dir fs)]),
          file_paths))"

text \<open>
  \<^verbatim>\<open>load_unified_data\<close>. \<open>unified_try\<close> is the body of the \<^verbatim>\<open>try\<close> (lines 124 to
  249): \<open>read_unified\<close> (lines 124 to 188), the path and the reader chosen by the
  suffix, which yields the table as it is in the file (none when the spreadsheet has no
  worksheet), and then \<open>load_table\<close> (lines 190 to 249): the emptiness check, the column
  names cleaned, the check for the expected column, the split. The handler (lines 251 to
  257) logs five error records and raises the exception again.

  Whether the index of column labels offers the \<^verbatim>\<open>.str\<close> accessor of line 197 is the
  library's matter and a parameter (\<open>str_ok\<close>): pandas refuses it, with an
  \<^verbatim>\<open>AttributeError\<close>, on an index it takes to hold no strings, such as an all-numeric
  one. When \<open>record_type\<close> is not among the cleaned labels, line 212 tests
  \<^verbatim>\<open>'record_type' in col\<close> for every label; on a label that is not a string (missing
  after the cleaning) that test raises a \<^verbatim>\<open>TypeError\<close> (the message is CPython's up to
  version 3.13), after the first warning and before the second.
\<close>

definition no_str_values :: string where
  "no_str_values = ''Can only use .str accessor with string values!''"

definition not_iterable :: string where
  "not_iterable = ''argument of type 'float' is not iterable''"

definition missing_expected :: log_record where
  "missing_expected = Warning ''Missing expected columns: ['record_type']''"

definition assuming_main :: log_record where
  "assuming_main =
     Warning ''No 'record_type' column found. Assuming all data is main data.''"

definition load_table ::
    "(cell \<Rightarrow> string option) \<Rightarrow> (cell list \<Rightarrow> bool) \<Rightarrow> frame
       \<Rightarrow> log_record list \<times> (error + frame \<times> frame)" where
  "load_table py_str str_ok raw =
     (if is_empty raw then ([], Inl (ValueError ''Loaded dataframe is empty''))
      else if \<not> str_ok (columns raw) then ([], Inl (AttributeError no_str_values))
      else
        (let df = clean_columns raw
         in if Text ''record_type'' \<in> set (columns df) then ([], split_records py_str df)
            else if list_all is_name (columns df)
            then ([missing_expected, assuming_main], split_records py_str df)
            else ([missing_expected], Inl (TypeError not_iterable))))"

definition read_unified ::
    "directory \<Rightarrow> (string \<times> string) list \<Rightarrow> error + frame option" where
  "read_unified fs file_paths =
     (case map_of file_paths ''unified_data'' of
        None \<Rightarrow>
          Inl (FileNotFoundError (''Unified data file not found. Expected: ''
                 @ data_file ''unified_data'' @ '' in '' @ raw_dir fs))
      | Some unified_data_path \<Rightarrow>
          (let file_extension = lower (suffix unified_data_path)
           in if file_extension = ''.xlsx'' then
                (case ExcelFile fs unified_data_path of
                   Inl e \<Rightarrow> Inl e
                 | Inr wb \<Rightarrow> Inr (map_option fst (resolve_sheet wb)))
              else if file_extension = ''.csv'' then
                (case read_csv fs unified_data_path of
                   Inl e \<Rightarrow> Inl e
                 | Inr df \<Rightarrow> Inr (Some df))
              else Inl (ValueError (''Unsupported file format: '' @ file_extension))))"

definition unified_try ::
    "(cell \<Rightarrow> string option) \<Rightarrow> (cell list \<Rightarrow> bool) \<Rightarrow> directory \<Rightarrow> (string \<times> string) list
       \<Rightarrow> log_record list \<times> (error + frame \<times> frame)" where
  "unified_try py_str str_ok fs file_paths =
     (case read_unified fs file_paths of
        Inl e \<Rightarrow> ([], Inl e)
      | Inr None \<Rightarrow> ([], Inl (ValueError ''Loaded dataframe is empty''))
      | Inr (Some raw) \<Rightarrow> load_table py_str str_ok raw)"

definition load_unified_data ::
    "(cell \<Rightarrow> string option) \<Rightarrow> (cell list \<Rightarrow> bool) \<Rightarrow> directory
       \<Rightarrow> log_record list \<times> (error + frame \<times> frame)" where
  "load_unified_data py_str str_ok fs =
     (let (log0, file_paths) = download_data fs;
          (log1, result) = unified_try py_str str_ok fs file_paths
      in case result of
           Inr r \<Rightarrow> (log0 @ log1, Inr r)
         | Inl e \<Rightarrow>
             (log0 @ log1
                @ [Error (''Error loading unified data: '' @ message e),
                   Error ''Please check:'',
                   Error ''1. File exists in data/raw/ folder'',
                   Error ''2. File is not open in Excel'',
                   Error ''3. File format is correct''],
              Inl e))"

text \<open>
  \<^verbatim>\<open>load_reference_codes\<close>: the same shape with its own list of sheet names and no
  probing; the column names are cleaned (line 316) and the table is returned. The handler
  logs one error record and raises again.
\<close>

definition reference_sheet_names :: "string list" where
  "reference_sheet_names = [''reference_codes'', ''codes'', ''Sheet1'', ''ref'']"

definition resolve_reference_sheet :: "workbook \<Rightarrow> (frame \<times> string) option" where
  "resolve_reference_sheet wb =
     (case try_possible wb reference_sheet_names of
        Some r \<Rightarrow> Some r
      | None \<Rightarrow>
          (case sheet_names wb of
             [] \<Rightarrow> None
           | first # _ \<Rightarrow> map_option (\<lambda>df. (df, first)) (read_excel wb first)))"

definition reference_try ::
    "(cell list \<Rightarrow> bool) \<Rightarrow> directory \<Rightarrow> (string \<times> string) list \<Rightarrow> error + frame" where
  "reference_try str_ok fs file_paths =
     (case map_of file_paths ''reference_codes'' of
        None \<Rightarrow>
          Inl (FileNotFoundError (''Reference codes file not found. Expected: ''
                 @ data_file ''reference_codes'' @ '' in '' @ raw_dir fs))
      | Some ref_codes_path \<Rightarrow>
          (let file_extension = lower (suffix ref_codes_path);
               loaded =
                 (if file_extension = ''.xlsx'' then
                    (case ExcelFile fs ref_codes_path of
                       Inl e \<Rightarrow> Inl e
                     | Inr wb \<Rightarrow> Inr (map_option fst (resolve_reference_sheet wb)))
                  else if file_extension = ''.csv'' then
                    (case read_csv fs ref_codes_path of
                       Inl e \<Rightarrow> Inl e
                     | Inr df \<Rightarrow> Inr (Some df))
                  else Inl (ValueError (''Unsupported file format: '' @ file_extension)))
           in case loaded of
                Inl e \<Rightarrow> Inl e
              | Inr None \<Rightarrow> Inl (ValueError ''Loaded reference codes dataframe is empty'')
              | Inr (Some ref_codes) \<Rightarrow>
                  if is_empty ref_codes
                  then Inl (ValueError ''Loaded reference codes dataframe is empty'')
                  else if \<not> str_ok (columns ref_codes)
                  then Inl (AttributeError no_str_values)
                  else Inr (clean_columns ref_codes)))"

definition load_reference_codes ::
    "(cell list \<Rightarrow> bool) \<Rightarrow> directory \<Rightarrow> log_record list \<times> (error + frame)" where
  "load_reference_codes str_ok fs =
     (let (log0, file_paths) = download_data fs
      in case reference_try str_ok fs file_paths of
           Inr r \<Rightarrow> (log0, Inr r)
         | Inl e \<Rightarrow> (log0 @ [Error (''Error loading reference codes: '' @ message e)], Inl e))"

text \<open>
  \<^verbatim>\<open>load_additional_data_guide\<close>: every sheet of the spreadsheet, by name. Its handler
  (lines 371 to 373) logs one error record and returns the empty dict.
\<close>

definition guide_try :: "directory \<Rightarrow> (string \<times> string) list \<Rightarrow> error + (string \<times> frame) list" where
  "guide_try fs file_paths =
     (case map_of file_paths ''additional_data'' of
        None \<Rightarrow>
          Inl (FileNotFoundError (''Additional data guide not found. Expected: ''
                 @ data_file ''additional_data'' @ '' in '' @ raw_dir fs))
      | Some guide_path \<Rightarrow>
          (let file_extension = lower (suffix guide_path)
           in if file_extension = ''.xlsx'' then
                (case ExcelFile fs guide_path of
                   Inl e \<Rightarrow> Inl e
                 | Inr wb \<Rightarrow>
                     Inr (concat (map (\<lambda>sheet_name.
                            (case read_excel wb sheet_name of
                               None \<Rightarrow> []
                             | Some df \<Rightarrow> [(sheet_name, df)])) (sheet_names wb))))
              else Inl (ValueError (''Unsupported file format for guide: '' @ file_extension))))"

definition load_additional_data_guide ::
    "directory \<Rightarrow> log_record list \<times> (error + (string \<times> frame) list)" where
  "load_additional_data_guide fs =
     (let (log0, file_paths) = download_data fs
      in case guide_try fs file_paths of
           Inr sheets_dict \<Rightarrow> (log0, Inr sheets_dict)
         | Inl e \<Rightarrow>
             (log0 @ [Error (''Error loading additional data guide: '' @ message e)], Inr []))"

subsection \<open>The structural validator\<close>

text \<open>\<^verbatim>\<open>sub in s\<close> on strings.\<close>

fun contains :: "string \<Rightarrow> string \<Rightarrow> bool" where
  "contains sub [] = (sub = [])"
| "contains sub (c # s) = (take (length sub) (c # s) = sub \<or> contains sub s)"

definition column_values :: "frame \<Rightarrow> nat \<Rightarrow> cell list" where
  "column_values df i = map (\<lambda>(l, r). cell_at r i) (rows df)"

text \<open>
  \<^verbatim>\<open>value_counts().to_dict()\<close> of a column: every value that is not missing with the
  number of its occurrences (a dict: the order of the keys carries no meaning).
  \<^verbatim>\<open>nunique()\<close>: the number of distinct values that are not missing. For a label on
  several columns pandas computes both on a frame; the model returns \<open>None\<close> then and
  does not describe that result.
\<close>

definition value_counts :: "cell list \<Rightarrow> (cell \<times> nat) list" where
  "value_counts vs = map (\<lambda>v. (v, count_list vs v)) (remdups (filter (\<lambda>v. v \<noteq> Null) vs))"

definition counts_of :: "frame \<Rightarrow> string \<Rightarrow> (cell \<times> nat) list option" where
  "counts_of df name =
     (case getitem (columns df) name of
        KeyMissing \<Rightarrow> Some []
      | Series i \<Rightarrow> Some (value_counts (column_values df i))
      | SubFrame ps \<Rightarrow> None)"

definition nunique_of :: "frame \<Rightarrow> string \<Rightarrow> nat option" where
  "nunique_of df name =
     (case getitem (columns df) name of
        KeyMissing \<Rightarrow> Some 0
      | Series i \<Rightarrow> Some (length (remdups (filter (\<lambda>v. v \<noteq> Null) (column_values df i))))
      | SubFrame ps \<Rightarrow> None)"

text \<open>
  \<^verbatim>\<open>df.isnull().sum().to_dict()\<close>: for every column, in order, its label and the number
  of its missing cells (read as a dict, a later entry for the same label replaces an
  earlier one).
\<close>

definition isnull_sum :: "frame \<Rightarrow> (cell \<times> nat) list" where
  "isnull_sum df =
     map (\<lambda>j. (columns df ! j, length (filter (\<lambda>v. v = Null) (column_values df j))))
       [0..<length (columns df)]"

record validation_results =
  total_records :: nat
  record_type_counts :: "(cell \<times> nat) list option"
  pillar_distribution :: "(cell \<times> nat) list option"
  missing_values :: "(cell \<times> nat) list"
  date_range :: "(string \<times> string) option"
  unique_indicators :: "nat option"

text \<open>
  \<^verbatim>\<open>pd.to_datetime(column, errors='coerce')\<close> is a library function and a parameter
  (\<open>to_datetime\<close>): it maps a column to the parsed timestamps, \<open>None\<close> where a value
  does not parse. \<open>parsed_column\<close> is its result at the length of the table.
  \<^verbatim>\<open>strftime('%Y-%m-%d')\<close> is a parameter as well.
\<close>

definition parsed_column :: "(cell list \<Rightarrow> int option list) \<Rightarrow> frame \<Rightarrow> nat \<Rightarrow> int option list" where
  "parsed_column to_datetime df i =
     (let ps = to_datetime (column_values df i)
      in map (\<lambda>k. if k < length ps then ps ! k else None) [0..<length (rows df)])"

text \<open>\<^verbatim>\<open>dropna()\<close> on the parsed column.\<close>

definition valid_dates :: "int option list \<Rightarrow> int list" where
  "valid_dates ps = concat (map (\<lambda>p. case p of Some t \<Rightarrow> [t] | None \<Rightarrow> []) ps)"

text \<open>\<^verbatim>\<open>df[date_col] = ...\<close>: the parsed values are written into column \<open>i\<close> of the table.\<close>

definition assign_dates :: "frame \<Rightarrow> nat \<Rightarrow> int option list \<Rightarrow> frame" where
  "assign_dates df i ps =
     df\<lparr>rows :=
          map (\<lambda>((l, r), p). (l, set_cell i (case p of Some t \<Rightarrow> Timestamp t | None \<Rightarrow> Null) r))
            (zip (rows df) ps)\<rparr>"

text \<open>
  Line 418, \<^verbatim>\<open>[col for col in df.columns if 'date' in col.lower()]\<close>: the labels whose
  lowercased name contains \<open>date\<close>, in column order. The comprehension calls
  \<^verbatim>\<open>lower()\<close> on every label, outside any \<^verbatim>\<open>try\<close>: the first label that is not a
  string raises an \<^verbatim>\<open>AttributeError\<close>.
\<close>

fun date_columns :: "cell list \<Rightarrow> error + string list" where
  "date_columns [] = Inr []"
| "date_columns (Text col # cols) =
     (case date_columns cols of
        Inl e \<Rightarrow> Inl e
      | Inr rest \<Rightarrow> Inr (if contains ''date'' (lower col) then col # rest else rest))"
| "date_columns (c # cols) = Inl (AttributeError (no_attribute (type_name c) ''lower''))"

text \<open>
  Lines 420 to 431, the loop over the date columns. The table is the caller's object, and
  the assignment changes it; the loop returns the range and the table as it leaves it.
  For a label on several columns \<^verbatim>\<open>pd.to_datetime\<close> gets a frame and raises, and the
  handler goes on to the next label.
\<close>

fun date_loop ::
    "(cell list \<Rightarrow> int option list) \<Rightarrow> (int \<Rightarrow> string) \<Rightarrow> string list \<Rightarrow> frame
       \<Rightarrow> (string \<times> string) option \<times> frame" where
  "date_loop to_datetime strftime [] df = (None, df)"
| "date_loop to_datetime strftime (date_col # rest) df =
     (case getitem (columns df) date_col of
        Series i \<Rightarrow>
          (let parsed = parsed_column to_datetime df i;
               df1 = assign_dates df i parsed;
               valid = valid_dates parsed
           in if valid \<noteq> []
              then (Some (strftime (Min (set valid)), strftime (Max (set valid))), df1)
              else date_loop to_datetime strftime rest df1)
      | _ \<Rightarrow> date_loop to_datetime strftime rest df)"

text \<open>
  \<^verbatim>\<open>validate_data_structure\<close>: the report, and the table as the call leaves it; or
  the exception of line 418.
\<close>

definition validate_data_structure ::
    "(cell list \<Rightarrow> int option list) \<Rightarrow> (int \<Rightarrow> string) \<Rightarrow> frame
       \<Rightarrow> error + validation_results \<times> frame" where
  "validate_data_structure to_datetime strftime df =
     (let validation_results =
            \<lparr>total_records = length (rows df), record_type_counts = Some [],
             pillar_distribution = Some [], missing_values = [], date_range = None,
             unique_indicators = Some 0\<rparr>
      in if is_empty df then Inr (validation_results, df)
         else
           (case date_columns (columns df) of
              Inl e \<Rightarrow> Inl e
            | Inr date_cols \<Rightarrow>
                (let (range, df1) = date_loop to_datetime strftime date_cols df
                 in Inr (validation_results
                           \<lparr>record_type_counts := counts_of df ''record_type'',
                            pillar_distribution := counts_of df ''pillar'',
                            missing_values := isnull_sum df,
                            unique_indicators := nunique_of df ''indicator_code'',
                            date_range := range\<rparr>,
                         df1))))"

text \<open>
  The date range in the words of the specification. The date columns are the columns whose
  label is a string that, lowercased, contains \<open>date\<close>. The range of a column is the
  minimum and maximum of its parsed values, if it has any and its label names no other
  column. The range reported is that of the first date column (the claim), or that of the
  first date column that has a range (the code).
\<close>

definition date_labels :: "frame \<Rightarrow> string list" where
  "date_labels df =
     concat (map (\<lambda>c. case c of
                         Text s \<Rightarrow> (if contains ''date'' (lower s) then [s] else [])
                       | _ \<Rightarrow> []) (columns df))"

definition column_range ::
    "(cell list \<Rightarrow> int option list) \<Rightarrow> (int \<Rightarrow> string) \<Rightarrow> frame \<Rightarrow> string
       \<Rightarrow> (string \<times> string) option" where
  "column_range to_datetime strftime df col =
     (case getitem (columns df) col of
        Series i \<Rightarrow>
          (let valid = valid_dates (parsed_column to_datetime df i)
           in if valid \<noteq> [] then Some (strftime (Min (set valid)), strftime (Max (set valid)))
              else None)
      | _ \<Rightarrow> None)"

definition first_date_column_range ::
    "(cell list \<Rightarrow> int option list) \<Rightarrow> (int \<Rightarrow> string) \<Rightarrow> frame \<Rightarrow> (string \<times> string) option" where
  "first_date_column_range to_datetime strftime df =
     (case date_labels df of
        [] \<Rightarrow> None
      | col # _ \<Rightarrow> column_range to_datetime strftime df col)"

definition range_find ::
    "(cell list \<Rightarrow> int option list) \<Rightarrow> (int \<Rightarrow> string) \<Rightarrow> frame \<Rightarrow> string list
       \<Rightarrow> (string \<times> string) option" where
  "range_find to_datetime strftime df cs =
     (case find (\<lambda>col. column_range to_datetime strftime df col \<noteq> None) cs of
        None \<Rightarrow> None
      | Some col \<Rightarrow> column_range to_datetime strftime df col)"

definition first_parsable_date_column_range ::
    "(cell list \<Rightarrow> int option list) \<Rightarrow> (int \<Rightarrow> string) \<Rightarrow> frame \<Rightarrow> (string \<times> string) option" where
  "first_parsable_date_column_range to_datetime strftime df =
     range_find to_datetime strftime df (date_labels df)"

section \<open>The dashboard\<close>

text \<open>
  \<^verbatim>\<open>get_forecast_value\<close> (app.py, lines 145 to 155). \<open>data\<close> holds the tables loaded
  by name. Every exception inside the \<^verbatim>\<open>try\<close> ends in \<^verbatim>\<open>return None\<close>: a missing
  column (\<^verbatim>\<open>KeyError\<close>), no matching row (\<^verbatim>\<open>IndexError\<close>), a value that is not
  a string (\<^verbatim>\<open>AttributeError\<close>), a string that is no number (\<^verbatim>\<open>ValueError\<close>).
  A label on several columns gives a frame where the code expects a column, and no value is
  returned then either. Python's \<^verbatim>\<open>float()\<close> is a parameter (\<open>py_float\<close>), with
  \<open>None\<close> for its \<^verbatim>\<open>ValueError\<close>.
\<close>

definition matching_rows :: "frame \<Rightarrow> nat \<Rightarrow> nat \<Rightarrow> string \<Rightarrow> int \<Rightarrow> (int \<times> cell list) list" where
  "matching_rows forecasts i y indicator year =
     filter (\<lambda>(l, r). py_eq (cell_at r i) (Text indicator) \<and> py_eq (cell_at r y) (Integer year))
       (rows forecasts)"

definition get_forecast_value ::
    "(string \<Rightarrow> real option) \<Rightarrow> (string \<rightharpoonup> frame) \<Rightarrow> string \<Rightarrow> int \<Rightarrow> real option" where
  "get_forecast_value py_float data indicator year =
     (case data ''forecasts'' of
        None \<Rightarrow> None
      | Some forecasts \<Rightarrow>
          (case (getitem (columns forecasts) ''Indicator'',
                 getitem (columns forecasts) ''Year'',
                 getitem (columns forecasts) ''Forecast_%'') of
             (Series i, Series y, Series f) \<Rightarrow>
               (case matching_rows forecasts i y indicator year of
                  [] \<Rightarrow> None
                | (l, r) # _ \<Rightarrow>
                    (case cell_at r f of
                       Text v \<Rightarrow> py_float (replace ''%'' [] v)
                     | _ \<Rightarrow> None))
           | _ \<Rightarrow> None))"

text \<open>
  The three metric cards that derive a value (lines 166 to 230): label, value and delta.
  The one-decimal formatting of a float is a parameter (\<open>fmt\<close>).
\<close>

datatype metric = Metric string string string

definition forecast_metric :: "(real \<Rightarrow> string) \<Rightarrow> real option \<Rightarrow> metric" where
  "forecast_metric fmt acc_2027 =
     (case acc_2027 of
        Some v \<Rightarrow>
          Metric ''2027 Forecast (Base)'' (fmt v @ ''%'') (''vs 2024: +'' @ fmt (v - 49) @ ''pp'')
      | None \<Rightarrow> Metric ''2027 Forecast (Base)'' ''Loading...'' ''Data required'')"

definition gap_metric :: "(real \<Rightarrow> string) \<Rightarrow> real option \<Rightarrow> metric" where
  "gap_metric fmt acc_2027 =
     (case acc_2027 of
        Some v \<Rightarrow> Metric ''Gap to 2030 Target'' (fmt (70 - v) @ ''pp'') ''Remaining''
      | None \<Rightarrow> Metric ''Gap to 2030 Target'' ''--'' ''Data required'')"

definition range_placeholder :: metric where
  "range_placeholder = Metric ''Scenario Range (2027)'' ''--'' ''Data required''"

text \<open>
  The value inside \<^verbatim>\<open>f"{row['Range_pp']}pp"\<close>: a string as it is; Python's formatting
  of any other value is a parameter (\<open>py_str\<close>).
\<close>

fun format_value :: "(cell \<Rightarrow> string) \<Rightarrow> cell \<Rightarrow> string" where
  "format_value py_str (Text s) = s"
| "format_value py_str c = py_str c"

definition range_metric :: "(cell \<Rightarrow> string) \<Rightarrow> (string \<rightharpoonup> frame) \<Rightarrow> metric" where
  "range_metric py_str data =
     (case data ''comparison_2027'' of
        None \<Rightarrow> range_placeholder
      | Some comparison \<Rightarrow>
          (case getitem (columns comparison) ''Indicator'' of
             Series i \<Rightarrow>
               (case filter (\<lambda>(l, r). py_eq (cell_at r i) (Text ''ACC_OWNERSHIP''))
                       (rows comparison) of
                  [] \<Rightarrow> range_placeholder
                | (l, row) # _ \<Rightarrow>
                    (case getitem (columns comparison) ''Range_pp'' of
                       Series j \<Rightarrow>
                         if cell_at row j \<noteq> Null
                         then Metric ''Scenario Range (2027)''
                                (format_value py_str (cell_at row j) @ ''pp'')
                                ''Optimistic vs Pessimistic''
                         else range_placeholder
                     | _ \<Rightarrow> range_placeholder))
           | _ \<Rightarrow> range_placeholder))"

section \<open>Example inputs\<close>

text \<open>
  Conversions and checks of the library for the examples, whose converted columns hold
  strings and missing values only: the string conversion of an object column (a missing
  value becomes \<open>nan\<close>) and of a string-dtype column (a missing value stays missing),
  and an index that offers \<^verbatim>\<open>.str\<close> when it holds a string.
\<close>

definition object_str :: "cell \<Rightarrow> string option" where
  "object_str c = (if c = Null then Some ''nan'' else Some ''0'')"

definition string_dtype_str :: "cell \<Rightarrow> string option" where
  "string_dtype_str c = (if c = Null then None else Some ''0'')"

definition holds_a_name :: "cell list \<Rightarrow> bool" where
  "holds_a_name cols = list_ex is_name cols"

text \<open>
  The five-row table of the specification's example, with the values spelt untidily, and
  a table whose two headers both clean to \<open>record_type\<close>.
\<close>

definition five_rows :: frame where
  "five_rows =
     \<lparr>columns = map Text [''record_type'', ''value''],
      rows = [(0, [Text ''Observation'', Integer 10]),
              (1, [Text '' IMPACT_LINK'', Integer 11]),
              (2, [Text ''observation '', Integer 12]),
              (3, [Text ''impact_link'', Integer 13]),
              (4, [Text ''observation'', Integer 14])]\<rparr>"

definition twice_labelled :: frame where
  "twice_labelled =
     \<lparr>columns = map Text [''record_type'', '' Record_Type ''],
      rows = [(0, [Text ''observation'', Text ''impact_link'' ]),
              (1, [Text ''impact_link'', Null])]\<rparr>"

text \<open>
  A table with a missing and an untidy \<open>record_type\<close> value, and one with a missing
  value and the label on two columns.
\<close>

definition three_rows :: frame where
  "three_rows =
     \<lparr>columns = map Text [''indicator'', ''record_type''],
      rows = [(0, [Text ''ACC_OWNERSHIP'', Text ''observation'']),
              (1, [Text ''USG_P2P'', Null]),
              (2, [Text ''ACC_OWNERSHIP'', Text '' Impact_Link '' ])]\<rparr>"

definition missing_twice_labelled :: frame where
  "missing_twice_labelled =
     \<lparr>columns = map Text [''record_type'', ''indicator'', ''record_type''],
      rows = [(0, [Null, Text ''USG_P2P'', Text ''observation'' ])]\<rparr>"

text \<open>The two-sheet file of the specification's example.\<close>

definition two_sheets :: workbook where
  "two_sheets =
     [(''Sheet1'', \<lparr>columns = map Text [''note''], rows = [(0, [Text ''see data'' ])]\<rparr>),
      (''data'', \<lparr>columns = map Text [''record_type'', ''value''],
                 rows = [(0, [Text ''observation'', Integer 46])]\<rparr>)]"

text \<open>A raw directory with no file, and one whose spreadsheets have no worksheet.\<close>

definition no_files :: directory where
  "no_files = \<lparr>raw_dir = ''data/raw'', raw_files = Map.empty\<rparr>"

definition no_sheets :: directory where
  "no_sheets =
     \<lparr>raw_dir = ''data/raw'',
      raw_files = [''ethiopia_fi_unified_data.xlsx'' \<mapsto> Spreadsheet [],
                   ''reference_codes.xlsx'' \<mapsto> Spreadsheet []]\<rparr>"

text \<open>
  A file whose second sheet has the marker column under an untidy name, and that sheet's
  table.
\<close>

definition probe_book :: workbook where
  "probe_book =
     [(''Notes'', \<lparr>columns = map Text [''Comment''], rows = [(0, [Text ''draft'' ])]\<rparr>),
      (''Obs'', \<lparr>columns = map Text ['' Record_Type '', ''Value''],
                rows = [(0, [Text ''observation'', Integer 46]),
                        (1, [Text ''Impact_Link'', Integer 2])]\<rparr>)]"

definition untidy_table :: frame where
  "untidy_table =
     \<lparr>columns = map Text ['' Record_Type '', ''Value''],
      rows = [(0, [Text ''observation'', Integer 46]),
              (1, [Text ''Impact_Link'', Integer 2])]\<rparr>"

text \<open>
  Two raw directories with that table: one holds it as the delimited unified data set and
  as the delimited reference codes, the other holds the file above as the unified data set
  and as the additional-data guide.
\<close>

definition untidy_csv :: directory where
  "untidy_csv =
     \<lparr>raw_dir = ''data/raw'',
      raw_files = [''ethiopia_fi_unified_data.csv'' \<mapsto> Delimited untidy_table,
                   ''reference_codes.csv'' \<mapsto> Delimited untidy_table]\<rparr>"

definition untidy_book :: directory where
  "untidy_book =
     \<lparr>raw_dir = ''data/raw'',
      raw_files = [''ethiopia_fi_unified_data.xlsx'' \<mapsto> Spreadsheet probe_book,
                   ''Additional Data Points Guide.xlsx'' \<mapsto> Spreadsheet probe_book]\<rparr>"

text \<open>
  Forecast and comparison tables for the dashboard: the specification's example (no row for
  ACC_OWNERSHIP in 2027), one without the value column, one whose value is no number, and
  comparison tables without the range column, without the row, and with a missing range.
  \<open>example_float\<close> stands for \<^verbatim>\<open>float()\<close> on the strings used here.
\<close>

definition forecast_table :: frame where
  "forecast_table =
     \<lparr>columns = map Text [''Indicator'', ''Year'', ''Forecast_%''],
      rows = [(0, [Text ''ACC_OWNERSHIP'', Integer 2025, Text ''51.2%'' ]),
              (1, [Text ''ACC_OWNERSHIP'', Integer 2026, Text ''53.0%'' ]),
              (2, [Text ''USG_DIGITAL_PAYMENT'', Integer 2027, Text ''41.5%'' ])]\<rparr>"

definition forecast_no_value :: frame where
  "forecast_no_value =
     \<lparr>columns = map Text [''Indicator'', ''Year''],
      rows = [(0, [Text ''ACC_OWNERSHIP'', Integer 2027])]\<rparr>"

definition forecast_unparsed :: frame where
  "forecast_unparsed =
     \<lparr>columns = map Text [''Indicator'', ''Year'', ''Forecast_%''],
      rows = [(0, [Text ''ACC_OWNERSHIP'', Integer 2027, Text ''n/a'' ])]\<rparr>"

definition example_float :: "string \<Rightarrow> real option" where
  "example_float s = (if s = ''51.2'' then Some (512 / 10) else None)"

definition comparison_no_range :: frame where
  "comparison_no_range =
     \<lparr>columns = map Text [''Indicator''], rows = [(0, [Text ''ACC_OWNERSHIP'' ])]\<rparr>"

definition comparison_other :: frame where
  "comparison_other =
     \<lparr>columns = map Text [''Indicator'', ''Range_pp''],
      rows = [(0, [Text ''USG_DIGITAL_PAYMENT'', Integer 4])]\<rparr>"

definition comparison_null :: frame where
  "comparison_null =
     \<lparr>columns = map Text [''Indicator'', ''Range_pp''],
      rows = [(0, [Text ''USG_DIGITAL_PAYMENT'', Integer 4]), (1, [Text ''ACC_OWNERSHIP'', Null])]\<rparr>"

text \<open>
  Inputs for the validator: a parser that knows two date strings and keeps a timestamp, a
  formatter for the two days, a table whose first date column has no value that parses, and
  a table with one date column that holds a date and a string that is no date.
\<close>

definition example_to_datetime :: "cell list \<Rightarrow> int option list" where
  "example_to_datetime col =
     map (\<lambda>c. case c of
                 Timestamp t \<Rightarrow> Some t
               | Text s \<Rightarrow> (if s = ''2024-01-01'' then Some 19723
                            else if s = ''2024-07-01'' then Some 19905 else None)
               | _ \<Rightarrow> None) col"

definition example_strftime :: "int \<Rightarrow> string" where
  "example_strftime t =
     (if t = 19723 then ''2024-01-01'' else if t = 19905 then ''2024-07-01'' else ''another day'')"

definition two_date_columns :: frame where
  "two_date_columns =
     \<lparr>columns = map Text [''start_date'', ''end_date''],
      rows = [(0, [Text ''soon'', Text ''2024-07-01'' ]),
              (1, [Null, Text ''2024-01-01'' ])]\<rparr>"

definition dated_table :: frame where
  "dated_table =
     \<lparr>columns = map Text [''indicator'', ''date''],
      rows = [(0, [Text ''ACC_OWNERSHIP'', Text ''2024-01-01'' ]),
              (1, [Text ''USG_P2P'', Text ''not a date'' ])]\<rparr>"

text \<open>A table read from a sheet with a numeric header.\<close>

definition numbered_header :: frame where
  "numbered_header =
     \<lparr>columns = [Text ''Indicator'', Integer 2024],
      rows = [(0, [Text ''ACC_OWNERSHIP'', Integer 46])]\<rparr>"

section \<open>Properties of the column normalisation\<close>

lemma isspace_lower_char: "isspace (lower_char c) = isspace c"
  unfolding isspace_def lower_char_def Let_def by auto

lemma lower_char_idem: "lower_char (lower_char c) = lower_char c"
  unfolding lower_char_def Let_def by auto

lemma dropWhile_map_lower:
  "dropWhile isspace (map lower_char s) = map lower_char (dropWhile isspace s)"
  by (induction s) (auto simp: isspace_lower_char)

lemma strip_lower: "strip (lower s) = lower (strip s)"
proof -
  have "strip (map lower_char s) =
      rev (dropWhile isspace (map lower_char (rev (dropWhile isspace s))))"
    unfolding strip_def by (simp only: dropWhile_map_lower rev_map)
  also have "\<dots> = map lower_char (strip s)"
    unfolding strip_def by (simp only: dropWhile_map_lower rev_map)
  finally show ?thesis unfolding lower_def .
qed

lemma dropWhile_fix: "xs = [] \<or> \<not> P (hd xs) \<Longrightarrow> dropWhile P xs = xs"
  by (cases xs) auto

lemma rstrip_keeps_hd:
  "\<not> P (hd xs) \<Longrightarrow> xs \<noteq> [] \<Longrightarrow>
     rev (dropWhile P (rev xs)) \<noteq> [] \<and> hd (rev (dropWhile P (rev xs))) = hd xs"
proof (induction xs rule: rev_induct)
  case Nil
  then show ?case by simp
next
  case (snoc x xs)
  show ?case
  proof (cases xs)
    case Nil
    with snoc.prems show ?thesis by simp
  next
    case (Cons a as)
    with snoc show ?thesis by auto
  qed
qed

lemma strip_idem: "strip (strip s) = strip s"
proof -
  let ?u = "dropWhile isspace s"
  let ?v = "rev (dropWhile isspace (rev ?u))"
  have a: "dropWhile isspace ?v = ?v"
  proof (cases "?u = []")
    case True
    then show ?thesis by (simp only: rev.simps dropWhile.simps)
  next
    case False
    then have h: "\<not> isspace (hd ?u)" using hd_dropWhile by blast
    with False have "?v \<noteq> [] \<and> hd ?v = hd ?u" by (rule_tac rstrip_keeps_hd)
    then show ?thesis using h by (intro dropWhile_fix) simp
  qed
  show ?thesis unfolding strip_def by (simp only: a rev_rev_ident dropWhile_idem)
qed

lemma lower_idem: "lower (lower s) = lower s"
  by (simp add: lower_def lower_char_idem)

lemma clean_name_idem: "clean_name (clean_name s) = clean_name s"
  unfolding clean_name_def by (simp only: strip_lower strip_idem lower_idem)

lemma clean_label_idem: "clean_label (clean_label c) = clean_label c"
  by (cases c)
     (simp_all add: clean_label_def str_strip_def str_lower_def strip_lower strip_idem lower_idem)

lemma clean_label_Text: "clean_label (Text name) = Text (lower (strip name))"
  by (simp add: clean_label_def str_strip_def str_lower_def)

text \<open>
  C9. Column normalisation (strip, then lowercase, on every column name) is idempotent:
  normalising a table's column names twice gives the same table, and so the same column
  names, as normalising them once. On a name the normalisation is the strip followed by
  the lowercasing.
\<close>

theorem clean_columns_idempotent:
  "clean_columns (clean_columns df) = clean_columns df
   \<and> columns (clean_columns (clean_columns df)) = columns (clean_columns df)
   \<and> clean_label (Text name) = Text (lower (strip name))"
  by (simp add: clean_columns_def clean_label_idem clean_label_Text)

section \<open>Properties of the split\<close>



lemma cell_at_set_cell: "cell_at (set_cell i v r) i = v"
  by (simp add: cell_at_def set_cell_def nth_append)

lemma getitem_Series_mem: "getitem cols name = Series i \<Longrightarrow> Text name \<in> set cols"
proof -
  assume "getitem cols name = Series i"
  then have "positions name cols = [i]"
    by (auto simp: getitem_def split: list.splits)
  then have "i \<in> set (positions name cols)" by simp
  then have "i < length cols" "cols ! i = Text name" by (auto simp: positions_def)
  then show ?thesis by (metis nth_mem)
qed

lemma getitem_absent: "Text name \<notin> set cols \<Longrightarrow> getitem cols name = KeyMissing"
proof -
  assume a: "Text name \<notin> set cols"
  have "cols ! i \<noteq> Text name" if "i < length cols" for i
    using a that by (metis nth_mem)
  then have "positions name cols = []"
    unfolding positions_def by (auto simp: filter_empty_conv)
  then show ?thesis by (simp add: getitem_def)
qed

lemma map_nth_filter_positions:
  "map ((!) xs) (filter (\<lambda>k. P (xs ! k)) [0..<length xs]) = filter P xs"
proof (induction xs rule: rev_induct)
  case Nil
  then show ?case by simp
next
  case (snoc x xs)
  let ?ks = "filter (\<lambda>k. P (xs ! k)) [0..<length xs]"
  have f: "filter (\<lambda>k. P ((xs @ [x]) ! k)) [0..<length xs] = ?ks"
    by (rule filter_cong) (auto simp: nth_append)
  have m: "map ((!) (xs @ [x])) ?ks = map ((!) xs) ?ks"
    by (rule map_cong) (auto simp: nth_append)
  have "map ((!) (xs @ [x])) (filter (\<lambda>k. P ((xs @ [x]) ! k)) [0..<length (xs @ [x])])
      = map ((!) (xs @ [x])) (?ks @ (if P x then [length xs] else []))"
    using f by simp
  also have "\<dots> = map ((!) xs) ?ks @ (if P x then [x] else [])"
    using m by simp
  also have "\<dots> = filter P (xs @ [x])"
    using snoc.IH by simp
  finally show ?case .
qed

lemma frame_rows_update: "df\<lparr>rows := X\<rparr> = \<lparr>columns = columns df, rows = X\<rparr>"
  by (cases df) simp

lemma filter_cleaned_rows:
  "map snd (filter (\<lambda>(l, r). Q r) (map (\<lambda>(l, r). (l, f r)) xs))
     = map f (filter (\<lambda>r. Q (f r)) (map snd xs))"
  by (induction xs) auto

lemma map_positions_rows:
  "map (\<lambda>k. f (snd (xs ! k))) (filter (\<lambda>k. P (snd (xs ! k))) [0..<length xs])
     = map f (filter P (map snd xs))"
proof -
  have a: "filter (\<lambda>k. P (snd (xs ! k))) [0..<length xs]
      = filter (\<lambda>k. P (map snd xs ! k)) [0..<length (map snd xs)]"
    by (auto intro: filter_cong)
  have "map (\<lambda>k. f (snd (xs ! k))) (filter (\<lambda>k. P (snd (xs ! k))) [0..<length xs])
      = map f (map ((!) (map snd xs)) (filter (\<lambda>k. P (snd (xs ! k))) [0..<length xs]))"
    by (auto intro: map_cong)
  also have "\<dots> = map f (filter P (map snd xs))"
    unfolding a by (simp only: map_nth_filter_positions)
  finally show ?thesis .
qed

text \<open>
  The chain of conversions the loader applies to a cell gives the trimmed, lowercased value
  of the specification.
\<close>

lemma conversion_chain:
  "str_lower (str_strip (astype_str py_str c)) =
     (case trimmed_lowercased py_str c of Some s \<Rightarrow> Text s | None \<Rightarrow> Null)"
  by (cases c; cases "py_str c")
     (simp_all add: trimmed_lowercased_def str_lower_def str_strip_def)

lemma clean_record_type_spec: "clean_record_type py_str i r = with_record_type py_str i r"
  by (simp add: clean_record_type_def with_record_type_def conversion_chain)

lemma mask_spec:
  "py_eq (cell_at (with_record_type py_str i r) i) (Text ''impact_link'')
     = (trimmed_lowercased py_str (cell_at r i) = Some ''impact_link'')"
  by (cases "trimmed_lowercased py_str (cell_at r i)")
     (simp_all add: with_record_type_def cell_at_set_cell)

lemma split_records_Series:
  assumes "getitem (columns df) ''record_type'' = Series i"
  shows "split_records py_str df =
    Inr (\<lparr>columns = columns df,
          rows = zip (map int [0..<length (main_positions py_str i df)])
                   (map (\<lambda>k. with_record_type py_str i (snd (rows df ! k)))
                      (main_positions py_str i df))\<rparr>,
         \<lparr>columns = columns df,
          rows = zip (map int [0..<length (impact_positions py_str i df)])
                   (map (\<lambda>k. with_record_type py_str i (snd (rows df ! k)))
                      (impact_positions py_str i df))\<rparr>)"
proof -
  let ?v = "\<lambda>r. trimmed_lowercased py_str (cell_at r i)"
  let ?c = "clean_record_type py_str i"
  let ?w = "with_record_type py_str i"
  let ?cleaned = "map (\<lambda>(l, r). (l, ?c r)) (rows df)"
  have mem: "Text ''record_type'' \<in> set (columns df)" using assms by (rule getitem_Series_mem)
  have cw: "?c = ?w" by (rule ext) (rule clean_record_type_spec)
  have fi: "map snd (filter (\<lambda>(l, r). py_eq (cell_at r i) (Text ''impact_link'')) ?cleaned)
            = map (\<lambda>k. ?w (snd (rows df ! k))) (impact_positions py_str i df)"
    unfolding impact_positions_def
    by (simp only: filter_cleaned_rows mask_spec cw
          map_positions_rows [where f = "?w" and xs = "rows df"
            and P = "\<lambda>r. ?v r = Some ''impact_link''"])
  have neg: "(\<lambda>x. \<not> (case x of (l, r) \<Rightarrow> py_eq (cell_at r i) (Text ''impact_link'')))
      = (\<lambda>(l, r). \<not> py_eq (cell_at r i) (Text ''impact_link''))"
    by auto
  have fm: "map snd (filter (\<lambda>x. \<not> (case x of (l, r) \<Rightarrow> py_eq (cell_at r i) (Text ''impact_link''))) ?cleaned)
            = map (\<lambda>k. ?w (snd (rows df ! k))) (main_positions py_str i df)"
    unfolding main_positions_def neg
    by (simp only: filter_cleaned_rows mask_spec cw
          map_positions_rows [where f = "?w" and xs = "rows df"
            and P = "\<lambda>r. ?v r \<noteq> Some ''impact_link''"])
  have li: "length (filter (\<lambda>(l, r). py_eq (cell_at r i) (Text ''impact_link'')) ?cleaned)
      = length (impact_positions py_str i df)"
    using arg_cong [OF fi, of length] by simp
  have lm: "length (filter (\<lambda>x. \<not> (case x of (l, r) \<Rightarrow> py_eq (cell_at r i) (Text ''impact_link''))) ?cleaned)
      = length (main_positions py_str i df)"
    using arg_cong [OF fm, of length] by simp
  show ?thesis
    unfolding split_records_def
    using mem assms
    by (simp add: Let_def reset_index_def fi fm li lm frame_rows_update del: length_filter_map)
qed

lemma positions_disjoint:
  "set (impact_positions py_str i df) \<inter> set (main_positions py_str i df) = {}"
  by (auto simp: impact_positions_def main_positions_def)

lemma positions_cover:
  "set (impact_positions py_str i df) \<union> set (main_positions py_str i df) = {0..<length (rows df)}"
  by (auto simp: impact_positions_def main_positions_def)

lemma positions_length:
  "length (main_positions py_str i df) + length (impact_positions py_str i df) = length (rows df)"
  unfolding impact_positions_def main_positions_def
  using sum_length_filter_compl
    [of "\<lambda>k. trimmed_lowercased py_str (cell_at (snd (rows df ! k)) i) = Some ''impact_link''"
        "[0..<length (rows df)]"]
  by simp

lemma positions_sorted:
  "sorted_wrt (<) (impact_positions py_str i df) \<and> sorted_wrt (<) (main_positions py_str i df)"
  unfolding impact_positions_def main_positions_def
  by (simp add: sorted_wrt_filter)

text \<open>
  When the label names several columns, line 219 raises and nothing is returned.
\<close>

lemma split_records_duplicate_label:
  assumes "getitem (columns df) ''record_type'' = SubFrame ps"
  shows "split_records py_str df = Inl (AttributeError no_str_accessor)"
proof -
  have "Text ''record_type'' \<in> set (columns df)"
    using assms getitem_absent [of "''record_type''" "columns df"] by auto
  then show ?thesis using assms by (simp add: split_records_def)
qed

text \<open>
  C1, as the claim states it, fails: a table whose headers \<open>record_type\<close> and
  \<open>Record_Type\<close> (with blanks around it) both clean to \<open>record_type\<close> has a
  \<open>record_type\<close> column, and the loader raises on it instead of returning two subsets.
\<close>

theorem twice_labelled_counterexample:
  "columns (clean_columns twice_labelled) = [Text ''record_type'', Text ''record_type'']
   \<and> split_records object_str (clean_columns twice_labelled)
       = Inl (AttributeError no_str_accessor)
   \<and> load_table object_str holds_a_name twice_labelled
       = ([], Inl (AttributeError no_str_accessor))"
  by code_simp

text \<open>
  C1, amended. For a table in which the label \<open>record_type\<close> names exactly one column
  (position \<open>i\<close>), the split returns two tables. With the values of that column
  converted to strings, trimmed and lowercased, the impact links are exactly the rows whose
  value equals \<open>impact_link\<close> and the main data all the other rows, each row with that
  value in its \<open>record_type\<close> cell (a value the conversion leaves missing stays
  missing). The two sets of source positions are disjoint and cover the table, the row
  counts add up to the original count, each side keeps the source order (its positions are
  increasing), and each side is labelled 0, 1, 2, ... anew.
\<close>

theorem split_records_partition:
  assumes "getitem (columns df) ''record_type'' = Series i"
  shows "\<exists>main_data impact_links.
      split_records py_str df = Inr (main_data, impact_links)
    \<and> map snd (rows impact_links) =
        map (\<lambda>k. with_record_type py_str i (snd (rows df ! k))) (impact_positions py_str i df)
    \<and> map snd (rows main_data) =
        map (\<lambda>k. with_record_type py_str i (snd (rows df ! k))) (main_positions py_str i df)
    \<and> set (impact_positions py_str i df) \<inter> set (main_positions py_str i df) = {}
    \<and> set (impact_positions py_str i df) \<union> set (main_positions py_str i df) = {0..<length (rows df)}
    \<and> sorted_wrt (<) (impact_positions py_str i df) \<and> sorted_wrt (<) (main_positions py_str i df)
    \<and> length (rows main_data) + length (rows impact_links) = length (rows df)
    \<and> map fst (rows main_data) = map int [0..<length (rows main_data)]
    \<and> map fst (rows impact_links) = map int [0..<length (rows impact_links)]
    \<and> columns main_data = columns df \<and> columns impact_links = columns df"
  using positions_disjoint [of py_str i df] positions_cover [of py_str i df]
    positions_length [of py_str i df] positions_sorted [of py_str i df]
  by (simp add: split_records_Series [OF assms])

lemma five_rows_getitem: "getitem (columns five_rows) ''record_type'' = Series 0"
  by code_simp

theorem split_records_partition_witness:
  "getitem (columns five_rows) ''record_type'' = Series 0
   \<and> (\<exists>main_data impact_links.
        split_records object_str five_rows = Inr (main_data, impact_links)
      \<and> rows impact_links =
          [(0, [Text ''impact_link'', Integer 11]), (1, [Text ''impact_link'', Integer 13])]
      \<and> rows main_data =
          [(0, [Text ''observation'', Integer 10]), (1, [Text ''observation'', Integer 12]),
           (2, [Text ''observation'', Integer 14])])"
proof -
  obtain main_data impact_links where
    s: "split_records object_str five_rows = Inr (main_data, impact_links)"
    and i: "map snd (rows impact_links) =
        map (\<lambda>k. with_record_type object_str 0 (snd (rows five_rows ! k)))
          (impact_positions object_str 0 five_rows)"
    and m: "map snd (rows main_data) =
        map (\<lambda>k. with_record_type object_str 0 (snd (rows five_rows ! k)))
          (main_positions object_str 0 five_rows)"
    and fm: "map fst (rows main_data) = map int [0..<length (rows main_data)]"
    and fi: "map fst (rows impact_links) = map int [0..<length (rows impact_links)]"
    using split_records_partition [OF five_rows_getitem, of object_str] by blast
  have ri: "split_records object_str five_rows =
      Inr (\<lparr>columns = [Text ''record_type'', Text ''value''],
             rows = [(0, [Text ''observation'', Integer 10]), (1, [Text ''observation'', Integer 12]),
                     (2, [Text ''observation'', Integer 14])]\<rparr>,
           \<lparr>columns = [Text ''record_type'', Text ''value''],
             rows = [(0, [Text ''impact_link'', Integer 11]),
                     (1, [Text ''impact_link'', Integer 13])]\<rparr>)"
    by code_simp
  show ?thesis
    using s five_rows_getitem unfolding ri by auto
qed

text \<open>
  C10, as the claim states it, fails in two ways. Where the string conversion keeps a
  missing value missing (a column of the string dtype), the row's value is not the string
  \<open>nan\<close>: it is still missing in the main data. And where the label \<open>record_type\<close>
  is on two columns, the split raises on a table with a missing value.
\<close>

theorem missing_value_counterexample:
  "split_records string_dtype_str three_rows =
     Inr (\<lparr>columns = [Text ''indicator'', Text ''record_type''],
            rows = [(0, [Text ''ACC_OWNERSHIP'', Text ''observation'']),
                    (1, [Text ''USG_P2P'', Null])]\<rparr>,
          \<lparr>columns = [Text ''indicator'', Text ''record_type''],
            rows = [(0, [Text ''ACC_OWNERSHIP'', Text ''impact_link''])]\<rparr>)
   \<and> split_records object_str missing_twice_labelled = Inl (AttributeError no_str_accessor)"
  by code_simp

text \<open>
  C10, amended. In a table in which the label \<open>record_type\<close> names exactly one column,
  where the string conversion either turns a missing value into the string \<open>nan\<close> or
  keeps it missing, a row whose \<open>record_type\<close> value is missing is among the main-data
  rows and not among the impact links, and the split returns (it raises nothing). In the
  main data the row's value is the string \<open>nan\<close> in the first case and is missing in
  the second.
\<close>

theorem null_record_type_is_main_data:
  assumes "getitem (columns df) ''record_type'' = Series i"
    and "k < length (rows df)"
    and "cell_at (snd (rows df ! k)) i = Null"
    and "py_str Null = Some ''nan'' \<or> py_str Null = None"
  shows "k \<in> set (main_positions py_str i df)
    \<and> k \<notin> set (impact_positions py_str i df)
    \<and> (\<exists>main_data impact_links.
          split_records py_str df = Inr (main_data, impact_links)
        \<and> map snd (rows main_data) =
            map (\<lambda>j. with_record_type py_str i (snd (rows df ! j))) (main_positions py_str i df)
        \<and> map snd (rows impact_links) =
            map (\<lambda>j. with_record_type py_str i (snd (rows df ! j)))
              (impact_positions py_str i df))
    \<and> cell_at (with_record_type py_str i (snd (rows df ! k))) i
        = (if py_str Null = None then Null else Text ''nan'')"
proof -
  have nan: "lower (strip ''nan'') = ''nan''" by code_simp
  have v: "trimmed_lowercased py_str (cell_at (snd (rows df ! k)) i)
      = (if py_str Null = None then None else Some ''nan'')"
    using assms(3,4) by (auto simp: trimmed_lowercased_def nan)
  have ne: "trimmed_lowercased py_str (cell_at (snd (rows df ! k)) i) \<noteq> Some ''impact_link''"
    unfolding v by simp
  have m: "k \<in> set (main_positions py_str i df)" "k \<notin> set (impact_positions py_str i df)"
    using assms(2) ne by (simp_all add: main_positions_def impact_positions_def)
  have c: "cell_at (with_record_type py_str i (snd (rows df ! k))) i
        = (if py_str Null = None then Null else Text ''nan'')"
    by (simp add: with_record_type_def cell_at_set_cell v)
  show ?thesis
    using m c by (simp add: split_records_Series [OF assms(1)])
qed

lemma three_rows_getitem: "getitem (columns three_rows) ''record_type'' = Series 1"
  by code_simp

lemma three_rows_positions:
  "main_positions object_str 1 three_rows = [0, 1]"
  "impact_positions object_str 1 three_rows = [2]"
  "main_positions string_dtype_str 1 three_rows = [0, 1]"
  "impact_positions string_dtype_str 1 three_rows = [2]"
  by code_simp+

theorem null_record_type_is_main_data_witness:
  "getitem (columns three_rows) ''record_type'' = Series 1
   \<and> (1::nat) < length (rows three_rows)
   \<and> cell_at (snd (rows three_rows ! 1)) 1 = Null
   \<and> object_str Null = Some ''nan''
   \<and> string_dtype_str Null = None
   \<and> (1::nat) \<in> set (main_positions object_str 1 three_rows)
   \<and> (1::nat) \<notin> set (impact_positions object_str 1 three_rows)
   \<and> cell_at (with_record_type object_str 1 (snd (rows three_rows ! 1))) 1 = Text ''nan''
   \<and> (1::nat) \<in> set (main_positions string_dtype_str 1 three_rows)
   \<and> (1::nat) \<notin> set (impact_positions string_dtype_str 1 three_rows)
   \<and> cell_at (with_record_type string_dtype_str 1 (snd (rows three_rows ! 1))) 1 = Null
   \<and> main_positions object_str 1 three_rows = [0, 1]
   \<and> impact_positions object_str 1 three_rows = [2]"
proof -
  have k: "(1::nat) < length (rows three_rows)" by (simp add: three_rows_def)
  have n: "cell_at (snd (rows three_rows ! 1)) 1 = Null"
    by (simp add: three_rows_def cell_at_def)
  have o: "object_str Null = Some ''nan''" by (simp add: object_str_def)
  have s: "string_dtype_str Null = None" by (simp add: string_dtype_str_def)
  have o': "object_str Null = Some ''nan'' \<or> object_str Null = None" using o by simp
  have s': "string_dtype_str Null = Some ''nan'' \<or> string_dtype_str Null = None" using s by simp
  note t1 = null_record_type_is_main_data [where py_str = object_str and df = three_rows
      and i = 1 and k = 1, OF three_rows_getitem k n o']
  note t2 = null_record_type_is_main_data [where py_str = string_dtype_str and df = three_rows
      and i = 1 and k = 1, OF three_rows_getitem k n s']
  have a1: "(1::nat) \<in> set (main_positions object_str 1 three_rows)"
    and a2: "(1::nat) \<notin> set (impact_positions object_str 1 three_rows)"
    and a3: "cell_at (with_record_type object_str 1 (snd (rows three_rows ! 1))) 1 = Text ''nan''"
    using t1 o by simp_all
  have b1: "(1::nat) \<in> set (main_positions string_dtype_str 1 three_rows)"
    and b2: "(1::nat) \<notin> set (impact_positions string_dtype_str 1 three_rows)"
    and b3: "cell_at (with_record_type string_dtype_str 1 (snd (rows three_rows ! 1))) 1 = Null"
    using t2 s by simp_all
  show ?thesis
    by (intro conjI three_rows_getitem k n o s a1 a2 a3 b1 b2 b3 three_rows_positions(1,2))
qed

section \<open>Properties of the worksheet choice\<close>

lemma read_excel_Some: "n \<in> set (sheet_names wb) \<Longrightarrow> \<exists>df. read_excel wb n = Some df"
  unfolding sheet_names_def read_excel_def
  by (induction wb) auto

lemma read_excel_mem: "read_excel wb n = Some df \<Longrightarrow> n \<in> set (sheet_names wb)"
  unfolding sheet_names_def read_excel_def
  by (induction wb) (auto split: if_splits)

lemma try_possible_find:
  "try_possible wb ps =
     (case find (\<lambda>p. p \<in> set (sheet_names wb)) ps of
        None \<Rightarrow> None
      | Some p \<Rightarrow> map_option (\<lambda>df. (df, p)) (read_excel wb p))"
  by (induction ps) auto

lemma read_excel_nrows_columns:
  "read_excel_nrows wb n k = (case read_excel wb n of None \<Rightarrow> None | Some df \<Rightarrow> Some (df\<lparr>rows := take k (rows df)\<rparr>))"
  by (simp add: read_excel_nrows_def split: option.splits)

lemma probe_sheets_find:
  "probe_sheets wb ns =
     (case find (has_marker wb) ns of
        None \<Rightarrow> None
      | Some n \<Rightarrow> map_option (\<lambda>df. (df, n)) (read_excel wb n))"
proof (induction ns)
  case Nil
  then show ?case by simp
next
  case (Cons n ns)
  show ?case
  proof (cases "read_excel wb n")
    case None
    then show ?thesis using Cons by (simp add: has_marker_def read_excel_nrows_columns)
  next
    case (Some df)
    then show ?thesis using Cons by (simp add: has_marker_def read_excel_nrows_columns)
  qed
qed

lemma find_mem: "find P xs = Some x \<Longrightarrow> x \<in> set xs \<and> P x"
  by (induction xs) (auto split: if_splits)

lemma resolve_sheet_find:
  "resolve_sheet wb =
     (case find (\<lambda>p. p \<in> set (sheet_names wb)) possible_sheet_names of
        Some p \<Rightarrow> map_option (\<lambda>df. (df, p)) (read_excel wb p)
      | None \<Rightarrow>
          (case find (has_marker wb) (sheet_names wb) of
             Some n \<Rightarrow> map_option (\<lambda>df. (df, n)) (read_excel wb n)
           | None \<Rightarrow>
               (case sheet_names wb of
                  [] \<Rightarrow> None
                | first # _ \<Rightarrow> map_option (\<lambda>df. (df, first)) (read_excel wb first))))"
  unfolding resolve_sheet_def try_possible_find probe_sheets_find
  by (auto split: option.splits dest!: find_mem read_excel_Some)

text \<open>
  C2. For a file with at least one worksheet the resolver returns a worksheet of the file,
  read whole, and it is the one the rule chain names: the first name of the priority list
  that is a sheet of the file (wherever the sheet stands in the file), else the first sheet
  in file order whose columns include a marker column, else the first sheet. The resolver
  has no failing branch for such a file.
\<close>

theorem resolve_sheet_chain:
  assumes "wb \<noteq> []"
  shows "\<exists>df n. resolve_sheet wb = Some (df, n)
           \<and> n \<in> set (sheet_names wb)
           \<and> read_excel wb n = Some df
           \<and> resolver_spec possible_sheet_names (has_marker wb) (sheet_names wb) = Some n"
proof (cases "find (\<lambda>p. p \<in> set (sheet_names wb)) possible_sheet_names")
  case (Some p)
  then have p: "p \<in> set (sheet_names wb)" using find_mem by fastforce
  then obtain df where "read_excel wb p = Some df" using read_excel_Some by blast
  then show ?thesis using Some p
    unfolding resolve_sheet_find resolver_spec_def by simp
next
  case None
  show ?thesis
  proof (cases "find (has_marker wb) (sheet_names wb)")
    case (Some n)
    then have n: "n \<in> set (sheet_names wb)" using find_mem by fastforce
    then obtain df where "read_excel wb n = Some df" using read_excel_Some by blast
    then show ?thesis using None Some n
      unfolding resolve_sheet_find resolver_spec_def by simp
  next
    case N2: None
    obtain n df rest where wb: "wb = (n, df) # rest" using assms by (cases wb) auto
    then have r: "read_excel wb n = Some df" by (simp add: read_excel_def)
    have sn: "sheet_names wb = n # map fst rest" using wb by (simp add: sheet_names_def)
    show ?thesis using None N2 r
      unfolding resolve_sheet_find resolver_spec_def by (simp add: sn)
  qed
qed

lemma two_sheets_spec:
  "resolver_spec possible_sheet_names (has_marker two_sheets) (sheet_names two_sheets) = Some ''data''"
  by (simp add: resolver_spec_def possible_sheet_names_def sheet_names_def two_sheets_def)

theorem resolve_sheet_chain_witness:
  "two_sheets \<noteq> []
   \<and> resolve_sheet two_sheets =
       Some (\<lparr>columns = map Text [''record_type'', ''value''],
              rows = [(0, [Text ''observation'', Integer 46])]\<rparr>, ''data'')"
proof -
  have h: "two_sheets \<noteq> []" by (simp add: two_sheets_def)
  obtain df n where r: "resolve_sheet two_sheets = Some (df, n)"
    and e: "read_excel two_sheets n = Some df"
    and s: "resolver_spec possible_sheet_names (has_marker two_sheets) (sheet_names two_sheets) = Some n"
    using resolve_sheet_chain [OF h] by blast
  have n: "n = ''data''" using s two_sheets_spec by simp
  have "df = \<lparr>columns = map Text [''record_type'', ''value''], rows = [(0, [Text ''observation'', Integer 46])]\<rparr>"
    using e unfolding n by (simp add: read_excel_def two_sheets_def)
  then show ?thesis using h r n by simp
qed

section \<open>Properties of the order of column cleaning\<close>

lemma probe_book_eval:
  "read_excel probe_book ''Obs'' = Some untidy_table"
  "map clean_label (columns untidy_table) = [Text ''record_type'', Text ''value'']"
  "has_marker probe_book ''Obs'' = False"
  "resolve_sheet probe_book =
     Some (\<lparr>columns = [Text ''Comment''], rows = [(0, [Text ''draft'' ])]\<rparr>, ''Notes'')"
  by code_simp+

lemma untidy_guide:
  "snd (load_additional_data_guide untidy_book) =
     Inr [(''Notes'', \<lparr>columns = [Text ''Comment''], rows = [(0, [Text ''draft'' ])]\<rparr>),
          (''Obs'', untidy_table)]"
  by code_simp

lemma untidy_validated:
  "map_sum (\<lambda>e. e) (\<lambda>(report, df1). record_type_counts report)
     (validate_data_structure example_to_datetime example_strftime untidy_table) = Inr (Some [])"
  by code_simp

text \<open>
  C6, as the claim states it, fails. The second sheet's column \<open>Record_Type\<close> (with
  blanks around it) would be \<open>record_type\<close> once cleaned, but the worksheet probe
  compares the names as they stand in the file, finds no marker, and the resolver falls
  back to the first sheet. The loader of the additional-data guide returns that sheet with
  its names as they stand in the file, and the validator, given that table, looks for a
  column named exactly \<open>record_type\<close> and counts no record type.
\<close>

theorem raw_names_matched_counterexample:
  "read_excel probe_book ''Obs'' = Some untidy_table
   \<and> Text ''record_type'' \<in> set (map clean_label (columns untidy_table))
   \<and> \<not> has_marker probe_book ''Obs''
   \<and> map_option snd (resolve_sheet probe_book) = Some ''Notes''
   \<and> snd (load_additional_data_guide untidy_book) =
       Inr [(''Notes'', \<lparr>columns = [Text ''Comment''], rows = [(0, [Text ''draft'' ])]\<rparr>),
            (''Obs'', untidy_table)]
   \<and> map_sum (\<lambda>e. e) (\<lambda>(report, df1). record_type_counts report)
        (validate_data_structure example_to_datetime example_strftime untidy_table)
       = Inr (Some [])"
  by (simp add: probe_book_eval untidy_guide untidy_validated)

lemma probe_sheets_marker:
  "probe_sheets wb ns = Some (df, n) \<Longrightarrow>
     Text ''record_type'' \<in> set (columns df) \<or> Text ''indicator'' \<in> set (columns df)"
  by (induction ns) (auto simp: read_excel_nrows_def split: option.splits if_splits)

lemma rows_clean_columns: "rows (clean_columns raw) = rows raw"
  by (simp add: clean_columns_def)

lemma impact_positions_clean:
  "impact_positions py_str i (clean_columns raw) = impact_positions py_str i raw"
  "main_positions py_str i (clean_columns raw) = main_positions py_str i raw"
  by (simp_all add: impact_positions_def main_positions_def rows_clean_columns)

lemma getitem_mem_cases:
  "Text name \<in> set cols \<Longrightarrow>
     (\<exists>i. getitem cols name = Series i) \<or> (\<exists>ps. getitem cols name = SubFrame ps)"
proof -
  assume "Text name \<in> set cols"
  then obtain i where "i < length cols" "cols ! i = Text name" by (auto simp: in_set_conv_nth)
  then have "i \<in> set (positions name cols)" by (simp add: positions_def)
  then have "positions name cols \<noteq> []" by auto
  then show ?thesis by (auto simp: getitem_def split: list.splits)
qed

text \<open>
  Lines 190 to 249 on the table read: when they return, the expected-column check and the
  split have been decided on the cleaned names.
\<close>

lemma load_table_returns:
  assumes "load_table py_str str_ok raw = (logged, Inr (main_data, impact_links))"
  shows "columns main_data = map clean_label (columns raw)
    \<and> map clean_label (columns main_data) = columns main_data
    \<and> map clean_label (columns impact_links) = columns impact_links
    \<and> (Text ''record_type'' \<notin> set (map clean_label (columns raw))
         \<longrightarrow> logged = [missing_expected, assuming_main]
             \<and> rows main_data = rows raw \<and> impact_links = empty_frame)
    \<and> (Text ''record_type'' \<in> set (map clean_label (columns raw))
         \<longrightarrow> logged = []
             \<and> (\<exists>i. getitem (map clean_label (columns raw)) ''record_type'' = Series i
                  \<and> columns impact_links = map clean_label (columns raw)
                  \<and> map snd (rows impact_links) =
                      map (\<lambda>k. with_record_type py_str i (snd (rows raw ! k)))
                        (impact_positions py_str i raw)
                  \<and> map snd (rows main_data) =
                      map (\<lambda>k. with_record_type py_str i (snd (rows raw ! k)))
                        (main_positions py_str i raw)))"
proof -
  let ?df = "clean_columns raw"
  have cols: "columns ?df = map clean_label (columns raw)" by (simp add: clean_columns_def)
  have idem: "map clean_label (map clean_label (columns raw)) = map clean_label (columns raw)"
    by (simp add: clean_label_idem)
  have ne: "\<not> is_empty raw" using assms by (auto simp: load_table_def)
  have ok: "str_ok (columns raw)"
    using assms ne by (auto simp: load_table_def split: if_splits)
  show ?thesis
  proof (cases "Text ''record_type'' \<in> set (map clean_label (columns raw))")
    case False
    then have sp: "split_records py_str ?df = Inr (?df, empty_frame)"
      by (simp add: split_records_def cols)
    have names: "list_all is_name (columns ?df)"
      using assms ne ok False by (auto simp: load_table_def Let_def cols split: if_splits)
    have "load_table py_str str_ok raw
        = ([missing_expected, assuming_main], Inr (?df, empty_frame))"
      using ne ok False names sp by (simp add: load_table_def Let_def cols)
    with assms have "logged = [missing_expected, assuming_main]"
      "main_data = ?df" "impact_links = empty_frame"
      by simp_all
    then show ?thesis using False idem
      by (simp add: cols rows_clean_columns empty_frame_def)
  next
    case True
    have l: "load_table py_str str_ok raw = ([], split_records py_str ?df)"
      using ne ok True by (simp add: load_table_def Let_def cols)
    with assms have lg: "logged = []"
      and s: "split_records py_str ?df = Inr (main_data, impact_links)"
      by simp_all
    consider i where "getitem (columns ?df) ''record_type'' = Series i"
      | ps where "getitem (columns ?df) ''record_type'' = SubFrame ps"
      using True getitem_mem_cases [of "''record_type''" "columns ?df"] cols by auto
    then show ?thesis
    proof cases
      case 1
      show ?thesis
        using s True 1 idem lg
        unfolding split_records_Series [OF 1]
        by (auto simp: cols impact_positions_clean rows_clean_columns)
    next
      case 2
      then have "split_records py_str ?df = Inl (AttributeError no_str_accessor)"
        by (rule split_records_duplicate_label)
      with s show ?thesis by simp
    qed
  qed
qed

text \<open>
  On a table with a numeric header and no \<open>record_type\<close> column, the loader raises
  at line 212, after the first warning.
\<close>

lemma load_numbered_header:
  "load_table object_str holds_a_name numbered_header
     = ([missing_expected], Inl (TypeError not_iterable))"
  by code_simp

lemma load_unified_data_returns:
  assumes "load_unified_data py_str str_ok fs = (logged, Inr r)"
  shows "\<exists>raw logged_table.
      read_unified fs (snd (download_data fs)) = Inr (Some raw)
    \<and> logged = fst (download_data fs) @ logged_table
    \<and> load_table py_str str_ok raw = (logged_table, Inr r)"
proof -
  obtain log0 fp where d: "download_data fs = (log0, fp)" by (cases "download_data fs")
  obtain log1 res where u: "unified_try py_str str_ok fs fp = (log1, res)"
    by (cases "unified_try py_str str_ok fs fp")
  have "res = Inr r \<and> logged = log0 @ log1"
    using assms by (cases res) (simp_all add: load_unified_data_def d u)
  then have res: "res = Inr r" and lg: "logged = log0 @ log1" by simp_all
  have "\<exists>raw. read_unified fs fp = Inr (Some raw)
      \<and> load_table py_str str_ok raw = (log1, Inr r)"
  proof (cases "read_unified fs fp")
    case (Inl e)
    then show ?thesis using u res by (simp add: unified_try_def)
  next
    case (Inr t)
    then show ?thesis using u res by (cases t) (simp_all add: unified_try_def)
  qed
  then show ?thesis using d lg by auto
qed

lemma load_reference_codes_returns:
  assumes "load_reference_codes str_ok fs = (logged, Inr ref_codes)"
  shows "map clean_label (columns ref_codes) = columns ref_codes"
proof -
  obtain log0 fp where d: "download_data fs = (log0, fp)" by (cases "download_data fs")
  have t: "reference_try str_ok fs fp = Inr ref_codes"
    using assms
    by (cases "reference_try str_ok fs fp") (simp_all add: load_reference_codes_def d)
  have "\<exists>raw. ref_codes = clean_columns raw"
    using t unfolding reference_try_def Let_def
    by (auto split: option.splits sum.splits if_splits)
  then show ?thesis by (auto simp: clean_columns_def clean_label_idem)
qed

text \<open>
  C6, amended. When \<^verbatim>\<open>load_unified_data\<close> returns, the table it read from the file has
  had its column names stripped and lowercased before the check for the expected column
  and before the split, and both were decided on the cleaned names: when no cleaned name
  is \<open>record_type\<close> the two warnings are logged, the main data are all the rows and
  there are no impact links; when a cleaned name is \<open>record_type\<close> no warning is
  logged and the rows are split on that column. The tables returned carry the cleaned
  names (cleaning them again changes nothing), and so does the table that
  \<^verbatim>\<open>load_reference_codes\<close> returns. The worksheet probe runs before the cleaning, on the
  names of the file as they are: a sheet it selects has a column named exactly
  \<open>record_type\<close> or \<open>indicator\<close>.
\<close>

theorem loaders_use_clean_names:
  assumes "load_unified_data py_str str_ok fs = (logged, Inr (main_data, impact_links))"
  shows "(\<exists>raw logged_table.
        read_unified fs (snd (download_data fs)) = Inr (Some raw)
      \<and> logged = fst (download_data fs) @ logged_table
      \<and> columns main_data = map clean_label (columns raw)
      \<and> map clean_label (columns main_data) = columns main_data
      \<and> map clean_label (columns impact_links) = columns impact_links
      \<and> (Text ''record_type'' \<notin> set (map clean_label (columns raw))
           \<longrightarrow> logged_table = [missing_expected, assuming_main]
               \<and> rows main_data = rows raw \<and> impact_links = empty_frame)
      \<and> (Text ''record_type'' \<in> set (map clean_label (columns raw))
           \<longrightarrow> logged_table = []
               \<and> (\<exists>i. getitem (map clean_label (columns raw)) ''record_type'' = Series i
                    \<and> columns impact_links = map clean_label (columns raw)
                    \<and> map snd (rows impact_links) =
                        map (\<lambda>k. with_record_type py_str i (snd (rows raw ! k)))
                          (impact_positions py_str i raw)
                    \<and> map snd (rows main_data) =
                        map (\<lambda>k. with_record_type py_str i (snd (rows raw ! k)))
                          (main_positions py_str i raw))))
    \<and> (load_reference_codes str_ok fs = (ref_logged, Inr ref_codes)
         \<longrightarrow> map clean_label (columns ref_codes) = columns ref_codes)
    \<and> (probe_sheets wb names = Some (df, n)
         \<longrightarrow> Text ''record_type'' \<in> set (columns df) \<or> Text ''indicator'' \<in> set (columns df))"
proof (intro conjI impI)
  obtain raw logged_table where r: "read_unified fs (snd (download_data fs)) = Inr (Some raw)"
    and lg: "logged = fst (download_data fs) @ logged_table"
    and l: "load_table py_str str_ok raw = (logged_table, Inr (main_data, impact_links))"
    using load_unified_data_returns [OF assms] by blast
  show "\<exists>raw logged_table.
        read_unified fs (snd (download_data fs)) = Inr (Some raw)
      \<and> logged = fst (download_data fs) @ logged_table
      \<and> columns main_data = map clean_label (columns raw)
      \<and> map clean_label (columns main_data) = columns main_data
      \<and> map clean_label (columns impact_links) = columns impact_links
      \<and> (Text ''record_type'' \<notin> set (map clean_label (columns raw))
           \<longrightarrow> logged_table = [missing_expected, assuming_main]
               \<and> rows main_data = rows raw \<and> impact_links = empty_frame)
      \<and> (Text ''record_type'' \<in> set (map clean_label (columns raw))
           \<longrightarrow> logged_table = []
               \<and> (\<exists>i. getitem (map clean_label (columns raw)) ''record_type'' = Series i
                    \<and> columns impact_links = map clean_label (columns raw)
                    \<and> map snd (rows impact_links) =
                        map (\<lambda>k. with_record_type py_str i (snd (rows raw ! k)))
                          (impact_positions py_str i raw)
                    \<and> map snd (rows main_data) =
                        map (\<lambda>k. with_record_type py_str i (snd (rows raw ! k)))
                          (main_positions py_str i raw)))"
    by (rule exI [of _ raw], rule exI [of _ logged_table])
       (rule conjI [OF r], rule conjI [OF lg], rule load_table_returns [OF l])
next
  assume "load_reference_codes str_ok fs = (ref_logged, Inr ref_codes)"
  then show "map clean_label (columns ref_codes) = columns ref_codes"
    by (rule load_reference_codes_returns)
next
  assume "probe_sheets wb names = Some (df, n)"
  then show "Text ''record_type'' \<in> set (columns df) \<or> Text ''indicator'' \<in> set (columns df)"
    by (rule probe_sheets_marker)
qed

lemma untidy_csv_load:
  "load_unified_data object_str holds_a_name untidy_csv =
     (fst (download_data untidy_csv),
      Inr (\<lparr>columns = [Text ''record_type'', Text ''value''],
             rows = [(0, [Text ''observation'', Integer 46])]\<rparr>,
           \<lparr>columns = [Text ''record_type'', Text ''value''],
             rows = [(0, [Text ''impact_link'', Integer 2])]\<rparr>))"
  by code_simp

lemma untidy_csv_read:
  "read_unified untidy_csv (snd (download_data untidy_csv)) = Inr (Some untidy_table)"
  by code_simp

lemma untidy_csv_reference:
  "load_reference_codes holds_a_name untidy_csv =
     (fst (download_data untidy_csv),
      Inr \<lparr>columns = [Text ''record_type'', Text ''value''],
           rows = [(0, [Text ''observation'', Integer 46]),
                   (1, [Text ''Impact_Link'', Integer 2])]\<rparr>)"
  by code_simp

lemma untidy_book_load:
  "load_unified_data object_str holds_a_name untidy_book =
     (fst (download_data untidy_book) @ [missing_expected, assuming_main],
      Inr (\<lparr>columns = [Text ''comment''], rows = [(0, [Text ''draft'' ])]\<rparr>, empty_frame))"
  by code_simp

lemma untidy_book_read:
  "read_unified untidy_book (snd (download_data untidy_book)) =
     Inr (Some \<lparr>columns = [Text ''Comment''], rows = [(0, [Text ''draft'' ])]\<rparr>)"
  by code_simp

lemma two_sheets_probe:
  "probe_sheets two_sheets (sheet_names two_sheets) =
     Some (\<lparr>columns = [Text ''record_type'', Text ''value''],
            rows = [(0, [Text ''observation'', Integer 46])]\<rparr>, ''data'')"
  by code_simp

lemma untidy_names:
  "Text ''record_type'' \<notin> set (columns untidy_table)"
  "Text ''record_type'' \<notin> set (map clean_label [Text ''Comment''])"
  by code_simp+

theorem loaders_use_clean_names_witness:
  "load_unified_data object_str holds_a_name untidy_csv =
     (fst (download_data untidy_csv),
      Inr (\<lparr>columns = [Text ''record_type'', Text ''value''],
             rows = [(0, [Text ''observation'', Integer 46])]\<rparr>,
           \<lparr>columns = [Text ''record_type'', Text ''value''],
             rows = [(0, [Text ''impact_link'', Integer 2])]\<rparr>))
   \<and> read_unified untidy_csv (snd (download_data untidy_csv)) = Inr (Some untidy_table)
   \<and> map clean_label (columns untidy_table) = [Text ''record_type'', Text ''value'']
   \<and> Text ''record_type'' \<in> set (map clean_label (columns untidy_table))
   \<and> Text ''record_type'' \<notin> set (columns untidy_table)
   \<and> getitem (map clean_label (columns untidy_table)) ''record_type'' = Series 0
   \<and> load_unified_data object_str holds_a_name untidy_book =
       (fst (download_data untidy_book) @ [missing_expected, assuming_main],
        Inr (\<lparr>columns = [Text ''comment''], rows = [(0, [Text ''draft'' ])]\<rparr>, empty_frame))
   \<and> read_unified untidy_book (snd (download_data untidy_book)) =
       Inr (Some \<lparr>columns = [Text ''Comment''], rows = [(0, [Text ''draft'' ])]\<rparr>)
   \<and> Text ''record_type'' \<notin> set (map clean_label [Text ''Comment''])
   \<and> load_reference_codes holds_a_name untidy_csv =
       (fst (download_data untidy_csv),
        Inr \<lparr>columns = [Text ''record_type'', Text ''value''],
             rows = [(0, [Text ''observation'', Integer 46]),
                     (1, [Text ''Impact_Link'', Integer 2])]\<rparr>)
   \<and> probe_sheets two_sheets (sheet_names two_sheets) =
       Some (\<lparr>columns = [Text ''record_type'', Text ''value''],
              rows = [(0, [Text ''observation'', Integer 46])]\<rparr>, ''data'')
   \<and> (Text ''record_type'' \<in> set [Text ''record_type'', Text ''value'']
        \<or> Text ''indicator'' \<in> set [Text ''record_type'', Text ''value''])"
proof -
  note t1 = loaders_use_clean_names [OF untidy_csv_load,
      where ref_logged = "fst (download_data untidy_csv)"
        and ref_codes = "\<lparr>columns = [Text ''record_type'', Text ''value''],
                           rows = [(0, [Text ''observation'', Integer 46]),
                                   (1, [Text ''Impact_Link'', Integer 2])]\<rparr>"
        and wb = two_sheets and names = "sheet_names two_sheets"
        and df = "\<lparr>columns = [Text ''record_type'', Text ''value''],
                    rows = [(0, [Text ''observation'', Integer 46])]\<rparr>"
        and n = "''data''"]
  note t2 = loaders_use_clean_names [OF untidy_book_load]
  obtain raw where r: "read_unified untidy_csv (snd (download_data untidy_csv)) = Inr (Some raw)"
    and c: "columns \<lparr>columns = [Text ''record_type'', Text ''value''],
                     rows = [(0, [Text ''observation'', Integer 46])]\<rparr>
              = map clean_label (columns raw)"
    and s: "Text ''record_type'' \<in> set (map clean_label (columns raw))
           \<longrightarrow> (\<exists>i. getitem (map clean_label (columns raw)) ''record_type'' = Series i)"
    using t1 [THEN conjunct1] by blast
  have raw: "raw = untidy_table" using r untidy_csv_read by simp
  have e: "map clean_label (columns untidy_table) = [Text ''record_type'', Text ''value'']"
    using c unfolding raw by simp
  have m: "Text ''record_type'' \<in> set (map clean_label (columns untidy_table))"
    unfolding e by simp
  obtain i where g: "getitem (map clean_label (columns untidy_table)) ''record_type'' = Series i"
    using s m unfolding raw by blast
  have "getitem [Text ''record_type'', Text ''value''] ''record_type'' = Series 0" by code_simp
  then have g0: "getitem (map clean_label (columns untidy_table)) ''record_type'' = Series 0"
    unfolding e .
  have p: "Text ''record_type'' \<in> set [Text ''record_type'', Text ''value'']
        \<or> Text ''indicator'' \<in> set [Text ''record_type'', Text ''value'']"
    using t1 [THEN conjunct2, THEN conjunct2] two_sheets_probe by simp
  obtain raw2 where "read_unified untidy_book (snd (download_data untidy_book)) = Inr (Some raw2)"
    using t2 [THEN conjunct1] by blast
  then have r2: "read_unified untidy_book (snd (download_data untidy_book)) =
       Inr (Some \<lparr>columns = [Text ''Comment''], rows = [(0, [Text ''draft'' ])]\<rparr>)"
    using untidy_book_read by simp
  show ?thesis
    by (intro conjI untidy_csv_load untidy_csv_read e m untidy_names(1) g0 untidy_book_load
          r2 untidy_names(2) untidy_csv_reference two_sheets_probe p)
qed

section \<open>Properties of the dashboard metrics\<close>

text \<open>
  C3. Every lookup miss of a metric derivation ends in the explicit "unavailable" result,
  never in an exception (the functions are total: every exception of the source is caught
  and is a branch that returns). \<open>get_forecast_value\<close> returns \<open>None\<close> when the
  forecast table is not loaded, when one of its three columns is absent, when no row
  matches the indicator and the year, and when the value of the matching row is not a
  string or does not parse as a number. The presenter then shows the placeholder card. The
  scenario-range card is the placeholder when its table, a column or the row is absent or
  the range is missing.
\<close>

theorem lookup_miss_is_unavailable:
  "(data ''forecasts'' = None \<longrightarrow> get_forecast_value py_float data indicator year = None)
   \<and> (data ''forecasts'' = Some fc
        \<and> (Text ''Indicator'' \<notin> set (columns fc) \<or> Text ''Year'' \<notin> set (columns fc)
             \<or> Text ''Forecast_%'' \<notin> set (columns fc))
      \<longrightarrow> get_forecast_value py_float data indicator year = None)
   \<and> (data ''forecasts'' = Some fc
        \<and> getitem (columns fc) ''Indicator'' = Series i
        \<and> getitem (columns fc) ''Year'' = Series y
        \<and> matching_rows fc i y indicator year = []
      \<longrightarrow> get_forecast_value py_float data indicator year = None)
   \<and> (data ''forecasts'' = Some fc
        \<and> getitem (columns fc) ''Indicator'' = Series i
        \<and> getitem (columns fc) ''Year'' = Series y
        \<and> getitem (columns fc) ''Forecast_%'' = Series f
        \<and> matching_rows fc i y indicator year = (l, r) # rest
        \<and> (\<forall>v. cell_at r f = Text v \<longrightarrow> py_float (replace ''%'' [] v) = None)
      \<longrightarrow> get_forecast_value py_float data indicator year = None)
   \<and> forecast_metric fmt None = Metric ''2027 Forecast (Base)'' ''Loading...'' ''Data required''
   \<and> gap_metric fmt None = Metric ''Gap to 2030 Target'' ''--'' ''Data required''
   \<and> (cmp_data ''comparison_2027'' = None \<longrightarrow> range_metric py_str cmp_data = range_placeholder)
   \<and> (cmp_data ''comparison_2027'' = Some cmp
        \<and> (Text ''Indicator'' \<notin> set (columns cmp) \<or> Text ''Range_pp'' \<notin> set (columns cmp))
      \<longrightarrow> range_metric py_str cmp_data = range_placeholder)
   \<and> (cmp_data ''comparison_2027'' = Some cmp
        \<and> getitem (columns cmp) ''Indicator'' = Series j
        \<and> filter (\<lambda>(l, r). py_eq (cell_at r j) (Text ''ACC_OWNERSHIP'')) (rows cmp) = []
      \<longrightarrow> range_metric py_str cmp_data = range_placeholder)
   \<and> (cmp_data ''comparison_2027'' = Some cmp
        \<and> getitem (columns cmp) ''Indicator'' = Series j
        \<and> getitem (columns cmp) ''Range_pp'' = Series k
        \<and> filter (\<lambda>(l, r). py_eq (cell_at r j) (Text ''ACC_OWNERSHIP'')) (rows cmp) = (l', r') # rest'
        \<and> cell_at r' k = Null
      \<longrightarrow> range_metric py_str cmp_data = range_placeholder)
   \<and> range_placeholder = Metric ''Scenario Range (2027)'' ''--'' ''Data required''"
proof (intro conjI impI)
  show "get_forecast_value py_float data indicator year = None" if "data ''forecasts'' = None"
    using that by (simp add: get_forecast_value_def)
next
  assume a: "data ''forecasts'' = Some fc \<and> (Text ''Indicator'' \<notin> set (columns fc)
      \<or> Text ''Year'' \<notin> set (columns fc) \<or> Text ''Forecast_%'' \<notin> set (columns fc))"
  then have "getitem (columns fc) ''Indicator'' = KeyMissing
      \<or> getitem (columns fc) ''Year'' = KeyMissing
      \<or> getitem (columns fc) ''Forecast_%'' = KeyMissing"
    using getitem_absent by blast
  then show "get_forecast_value py_float data indicator year = None"
    using a by (auto simp: get_forecast_value_def split: selection.splits)
next
  assume "data ''forecasts'' = Some fc \<and> getitem (columns fc) ''Indicator'' = Series i
      \<and> getitem (columns fc) ''Year'' = Series y \<and> matching_rows fc i y indicator year = []"
  then show "get_forecast_value py_float data indicator year = None"
    by (auto simp: get_forecast_value_def split: selection.splits)
next
  assume "data ''forecasts'' = Some fc \<and> getitem (columns fc) ''Indicator'' = Series i
      \<and> getitem (columns fc) ''Year'' = Series y \<and> getitem (columns fc) ''Forecast_%'' = Series f
      \<and> matching_rows fc i y indicator year = (l, r) # rest
      \<and> (\<forall>v. cell_at r f = Text v \<longrightarrow> py_float (replace ''%'' [] v) = None)"
  then show "get_forecast_value py_float data indicator year = None"
    by (auto simp: get_forecast_value_def split: cell.splits)
next
  show "forecast_metric fmt None = Metric ''2027 Forecast (Base)'' ''Loading...'' ''Data required''"
    by (simp add: forecast_metric_def)
next
  show "gap_metric fmt None = Metric ''Gap to 2030 Target'' ''--'' ''Data required''"
    by (simp add: gap_metric_def)
next
  show "range_metric py_str cmp_data = range_placeholder" if "cmp_data ''comparison_2027'' = None"
    using that by (simp add: range_metric_def)
next
  assume a: "cmp_data ''comparison_2027'' = Some cmp
        \<and> (Text ''Indicator'' \<notin> set (columns cmp) \<or> Text ''Range_pp'' \<notin> set (columns cmp))"
  then have "getitem (columns cmp) ''Indicator'' = KeyMissing
      \<or> getitem (columns cmp) ''Range_pp'' = KeyMissing"
    using getitem_absent by blast
  then show "range_metric py_str cmp_data = range_placeholder"
    using a by (auto simp: range_metric_def split: selection.splits list.splits)
next
  assume "cmp_data ''comparison_2027'' = Some cmp
        \<and> getitem (columns cmp) ''Indicator'' = Series j
        \<and> filter (\<lambda>(l, r). py_eq (cell_at r j) (Text ''ACC_OWNERSHIP'')) (rows cmp) = []"
  then show "range_metric py_str cmp_data = range_placeholder"
    by (simp add: range_metric_def)
next
  assume "cmp_data ''comparison_2027'' = Some cmp
        \<and> getitem (columns cmp) ''Indicator'' = Series j
        \<and> getitem (columns cmp) ''Range_pp'' = Series k
        \<and> filter (\<lambda>(l, r). py_eq (cell_at r j) (Text ''ACC_OWNERSHIP'')) (rows cmp) = (l', r') # rest'
        \<and> cell_at r' k = Null"
  then show "range_metric py_str cmp_data = range_placeholder"
    by (simp add: range_metric_def)
next
  show "range_placeholder = Metric ''Scenario Range (2027)'' ''--'' ''Data required''"
    by (simp add: range_placeholder_def)
qed

lemma forecast_table_facts:
  "getitem (columns forecast_table) ''Indicator'' = Series 0"
  "getitem (columns forecast_table) ''Year'' = Series 1"
  "matching_rows forecast_table 0 1 ''ACC_OWNERSHIP'' 2027 = []"
  "Text ''Forecast_%'' \<notin> set (columns forecast_no_value)"
  by code_simp+

lemma forecast_unparsed_facts:
  "getitem (columns forecast_unparsed) ''Indicator'' = Series 0"
  "getitem (columns forecast_unparsed) ''Year'' = Series 1"
  "getitem (columns forecast_unparsed) ''Forecast_%'' = Series 2"
  "matching_rows forecast_unparsed 0 1 ''ACC_OWNERSHIP'' 2027
     = (0, [Text ''ACC_OWNERSHIP'', Integer 2027, Text ''n/a'' ]) # []"
  by code_simp+

lemma forecast_unparsed_value:
  "\<forall>v. cell_at [Text ''ACC_OWNERSHIP'', Integer 2027, Text ''n/a'' ] 2 = Text v
       \<longrightarrow> example_float (replace ''%'' [] v) = None"
  by (simp add: cell_at_def example_float_def)

lemma comparison_facts:
  "Text ''Range_pp'' \<notin> set (columns comparison_no_range)"
  "getitem (columns comparison_other) ''Indicator'' = Series 0"
  "filter (\<lambda>(l, r). py_eq (cell_at r 0) (Text ''ACC_OWNERSHIP'')) (rows comparison_other) = []"
  "getitem (columns comparison_null) ''Indicator'' = Series 0"
  "getitem (columns comparison_null) ''Range_pp'' = Series 1"
  "filter (\<lambda>(l, r). py_eq (cell_at r 0) (Text ''ACC_OWNERSHIP'')) (rows comparison_null)
     = (1, [Text ''ACC_OWNERSHIP'', Null]) # []"
  "cell_at [Text ''ACC_OWNERSHIP'', Null] 1 = Null"
  by code_simp+

theorem lookup_miss_is_unavailable_witness:
  "get_forecast_value example_float Map.empty ''ACC_OWNERSHIP'' 2027 = None
   \<and> get_forecast_value example_float [''forecasts'' \<mapsto> forecast_no_value] ''ACC_OWNERSHIP'' 2027 = None
   \<and> get_forecast_value example_float [''forecasts'' \<mapsto> forecast_table] ''ACC_OWNERSHIP'' 2027 = None
   \<and> get_forecast_value example_float [''forecasts'' \<mapsto> forecast_unparsed] ''ACC_OWNERSHIP'' 2027 = None
   \<and> range_metric (\<lambda>c. []) Map.empty = range_placeholder
   \<and> range_metric (\<lambda>c. []) [''comparison_2027'' \<mapsto> comparison_no_range] = range_placeholder
   \<and> range_metric (\<lambda>c. []) [''comparison_2027'' \<mapsto> comparison_other] = range_placeholder
   \<and> range_metric (\<lambda>c. []) [''comparison_2027'' \<mapsto> comparison_null] = range_placeholder"
proof -
  have c1: "get_forecast_value example_float Map.empty ''ACC_OWNERSHIP'' 2027 = None"
    using lookup_miss_is_unavailable [where data = Map.empty and py_float = example_float
        and indicator = "''ACC_OWNERSHIP''" and year = 2027]
    by simp
  have c2: "get_forecast_value example_float [''forecasts'' \<mapsto> forecast_no_value] ''ACC_OWNERSHIP'' 2027 = None"
    using lookup_miss_is_unavailable [where data = "[''forecasts'' \<mapsto> forecast_no_value]"
        and py_float = example_float and indicator = "''ACC_OWNERSHIP''" and year = 2027
        and fc = forecast_no_value] forecast_table_facts(4)
    by simp
  have c3: "get_forecast_value example_float [''forecasts'' \<mapsto> forecast_table] ''ACC_OWNERSHIP'' 2027 = None"
    using lookup_miss_is_unavailable [where data = "[''forecasts'' \<mapsto> forecast_table]"
        and py_float = example_float and indicator = "''ACC_OWNERSHIP''" and year = 2027
        and fc = forecast_table and i = 0 and y = 1] forecast_table_facts(1-3)
    by simp
  have c4: "get_forecast_value example_float [''forecasts'' \<mapsto> forecast_unparsed] ''ACC_OWNERSHIP'' 2027 = None"
    using lookup_miss_is_unavailable [where data = "[''forecasts'' \<mapsto> forecast_unparsed]"
        and py_float = example_float and indicator = "''ACC_OWNERSHIP''" and year = 2027
        and fc = forecast_unparsed and i = 0 and y = 1 and f = 2 and l = 0
        and r = "[Text ''ACC_OWNERSHIP'', Integer 2027, Text ''n/a'' ]" and rest = "[]"]
      forecast_unparsed_facts forecast_unparsed_value
    by simp
  have c5: "range_metric (\<lambda>c. []) Map.empty = range_placeholder"
    using lookup_miss_is_unavailable [where cmp_data = Map.empty and py_str = "\<lambda>c. []"]
    by simp
  have c6: "range_metric (\<lambda>c. []) [''comparison_2027'' \<mapsto> comparison_no_range] = range_placeholder"
    using lookup_miss_is_unavailable [where cmp_data = "[''comparison_2027'' \<mapsto> comparison_no_range]"
        and py_str = "\<lambda>c. []" and cmp = comparison_no_range] comparison_facts(1)
    by simp
  have c7: "range_metric (\<lambda>c. []) [''comparison_2027'' \<mapsto> comparison_other] = range_placeholder"
    using lookup_miss_is_unavailable [where cmp_data = "[''comparison_2027'' \<mapsto> comparison_other]"
        and py_str = "\<lambda>c. []" and cmp = comparison_other and j = 0] comparison_facts(2,3)
    by simp
  have c8: "range_metric (\<lambda>c. []) [''comparison_2027'' \<mapsto> comparison_null] = range_placeholder"
    using lookup_miss_is_unavailable [where cmp_data = "[''comparison_2027'' \<mapsto> comparison_null]"
        and py_str = "\<lambda>c. []" and cmp = comparison_null and j = 0 and k = 1 and l' = 1
        and r' = "[Text ''ACC_OWNERSHIP'', Null]" and rest' = "[]"] comparison_facts(4-7)
    by simp
  show ?thesis by (intro conjI c1 c2 c3 c4 c5 c6 c7 c8)
qed

section \<open>Properties of the validator\<close>

lemma cell_at_set_cell_other: "i \<noteq> j \<Longrightarrow> cell_at (set_cell i v r) j = cell_at r j"
  by (auto simp: cell_at_def set_cell_def nth_append nth_Cons')

lemma length_parsed_column: "length (parsed_column to_datetime df i) = length (rows df)"
  by (simp add: parsed_column_def Let_def)

lemma column_values_assign_other:
  assumes "i \<noteq> j" and "length ps = length (rows df)"
  shows "column_values (assign_dates df i ps) j = column_values df j"
proof -
  have "map (\<lambda>(l, r). cell_at r j)
          (map (\<lambda>((l, r), p). (l, set_cell i (case p of Some t \<Rightarrow> Timestamp t | None \<Rightarrow> Null) r))
             (zip xs ps))
        = map (\<lambda>(l, r). cell_at r j) xs"
    if "length ps = length xs" for xs :: "(int \<times> cell list) list"
    using that assms(1)
    by (induction xs ps rule: list_induct2') (auto simp: cell_at_set_cell_other)
  then show ?thesis using assms(2) by (simp add: column_values_def assign_dates_def)
qed

lemma assign_dates_shape:
  "columns (assign_dates df i ps) = columns df"
  "length ps = length (rows df) \<Longrightarrow> length (rows (assign_dates df i ps)) = length (rows df)"
  by (simp_all add: assign_dates_def)

lemma parsed_column_cong:
  "column_values df j = column_values df0 j \<Longrightarrow> length (rows df) = length (rows df0)
     \<Longrightarrow> parsed_column to_datetime df j = parsed_column to_datetime df0 j"
  by (simp add: parsed_column_def)

lemma getitem_Series_nth:
  "getitem cols c = Series i \<Longrightarrow> i < length cols \<and> cols ! i = Text c"
proof -
  assume "getitem cols c = Series i"
  then have "positions c cols = [i]" by (auto simp: getitem_def split: list.splits)
  then have "i \<in> set (positions c cols)" by simp
  then show ?thesis by (auto simp: positions_def)
qed

lemma count_list_positions: "count_list cols (Text c) = length (positions c cols)"
proof -
  have a: "length (filter (\<lambda>x. x = Text c) (map ((!) cols) [0..<length cols]))
      = length (filter (\<lambda>i. cols ! i = Text c) [0..<length cols])"
    by (simp add: comp_def)
  have b: "filter ((=) (Text c)) cols = filter (\<lambda>x. x = Text c) cols"
    by (rule filter_cong) auto
  show ?thesis
    using a unfolding positions_def count_list_eq_length_filter b by (simp add: map_nth)
qed

lemma getitem_Series_count: "getitem cols c = Series i \<Longrightarrow> count_list cols (Text c) = 1"
  by (auto simp: count_list_positions getitem_def split: list.splits)

lemma range_find_Cons:
  "range_find td sf df (c # cs) =
     (if column_range td sf df c \<noteq> None then column_range td sf df c else range_find td sf df cs)"
  by (simp add: range_find_def)

lemma date_loop_range:
  assumes "columns df = columns df0"
    and "length (rows df) = length (rows df0)"
    and "\<forall>c \<in> set cs. \<forall>j. getitem (columns df0) c = Series j
           \<longrightarrow> column_values df j = column_values df0 j"
    and "\<forall>c j. getitem (columns df0) c = Series j \<longrightarrow> count_list cs c \<le> 1"
  shows "fst (date_loop td sf cs df) = range_find td sf df0 cs"
  using assms
proof (induction cs arbitrary: df)
  case Nil
  then show ?case by (simp add: range_find_def)
next
  case (Cons c cs)
  have D: "\<forall>c' j. getitem (columns df0) c' = Series j \<longrightarrow> count_list cs c' \<le> 1"
  proof (intro allI impI)
    fix c' j assume "getitem (columns df0) c' = Series j"
    then have "count_list (c # cs) c' \<le> 1" using Cons.prems(4) by blast
    then show "count_list cs c' \<le> 1" by (simp split: if_splits)
  qed
  show ?case
  proof (cases "getitem (columns df0) c")
    case (Series i)
    let ?parsed = "parsed_column td df i"
    let ?df1 = "assign_dates df i ?parsed"
    have cv: "column_values df i = column_values df0 i"
      using Cons.prems(3) Series by simp
    have p: "?parsed = parsed_column td df0 i"
      using cv Cons.prems(2) by (rule parsed_column_cong)
    show ?thesis
    proof (cases "valid_dates ?parsed = []")
      case False
      then show ?thesis
        using Series Cons.prems(1) p
        by (simp add: range_find_Cons column_range_def Let_def)
    next
      case True
      have c_notin: "c \<notin> set cs"
      proof
        assume "c \<in> set cs"
        then have "count_list cs c \<noteq> 0" by (simp add: count_list_0_iff)
        then have "count_list cs c \<ge> 1" by simp
        moreover have "count_list (c # cs) c \<le> 1" using Cons.prems(4) Series by blast
        ultimately show False by simp
      qed
      have R: "\<forall>c' \<in> set cs. \<forall>j. getitem (columns df0) c' = Series j
           \<longrightarrow> column_values ?df1 j = column_values df0 j"
      proof (intro ballI allI impI)
        fix c' j assume c': "c' \<in> set cs" and g: "getitem (columns df0) c' = Series j"
        have "c' \<noteq> c" using c' c_notin by auto
        then have "i \<noteq> j"
          using getitem_Series_nth [OF g] getitem_Series_nth [OF Series] by auto
        then have "column_values ?df1 j = column_values df j"
          by (rule column_values_assign_other) (rule length_parsed_column)
        also have "\<dots> = column_values df0 j" using Cons.prems(3) c' g by simp
        finally show "column_values ?df1 j = column_values df0 j" .
      qed
      have "fst (date_loop td sf cs ?df1) = range_find td sf df0 cs"
      proof (rule Cons.IH)
        show "columns ?df1 = columns df0" using Cons.prems(1) by (simp add: assign_dates_shape)
        show "length (rows ?df1) = length (rows df0)"
          using Cons.prems(2) by (simp add: assign_dates_shape length_parsed_column)
      qed (rule R, rule D)
      then show ?thesis
        using Series Cons.prems(1) p True
        by (simp add: range_find_Cons column_range_def Let_def)
    qed
  next
    case KeyMissing
    have "fst (date_loop td sf cs df) = range_find td sf df0 cs"
      using Cons.prems(1,2,3) D by (intro Cons.IH) auto
    then show ?thesis
      using KeyMissing Cons.prems(1) by (simp add: range_find_Cons column_range_def)
  next
    case (SubFrame ps)
    have "fst (date_loop td sf cs df) = range_find td sf df0 cs"
      using Cons.prems(1,2,3) D by (intro Cons.IH) auto
    then show ?thesis
      using SubFrame Cons.prems(1) by (simp add: range_find_Cons column_range_def)
  qed
qed

text \<open>
  When every label is a string, line 418 yields the date columns of the specification; a
  label that is not a string makes it raise.
\<close>

lemma date_columns_names:
  "list_all is_name cols \<Longrightarrow>
     date_columns cols =
       Inr (concat (map (\<lambda>c. case c of
                                Text s \<Rightarrow> (if contains ''date'' (lower s) then [s] else [])
                              | _ \<Rightarrow> []) cols))"
proof (induction cols)
  case Nil
  then show ?case by simp
next
  case (Cons c cols)
  then show ?case by (cases c) (simp_all add: is_name_def)
qed

lemma date_columns_raises:
  "\<not> list_all is_name cols \<Longrightarrow> \<exists>m. date_columns cols = Inl (AttributeError m)"
proof (induction cols)
  case Nil
  then show ?case by simp
next
  case (Cons c cols)
  then show ?case by (cases c) (auto simp: is_name_def split: sum.splits)
qed

lemma date_labels_count: "count_list (date_labels df) c \<le> count_list (columns df) (Text c)"
proof -
  have "count_list (concat (map (\<lambda>c. case c of
            Text s \<Rightarrow> (if contains ''date'' (lower s) then [s] else []) | _ \<Rightarrow> []) cols)) c
      \<le> count_list cols (Text c)" for cols
  proof (induction cols)
    case Nil
    then show ?case by simp
  next
    case (Cons a cols)
    then show ?case by (cases a) auto
  qed
  then show ?thesis by (simp add: date_labels_def)
qed

lemma date_labels_unique:
  "getitem (columns df) c = Series j \<Longrightarrow> count_list (date_labels df) c \<le> 1"
  using date_labels_count [of df c] getitem_Series_count [of "columns df" c j] by simp

text \<open>
  C8, as the claim states it, fails: when the first date column has no value that parses,
  the claim reports no range, and the validator goes on to the next date column and
  reports that column's range.
\<close>

theorem first_date_column_counterexample:
  "date_labels two_date_columns = [''start_date'', ''end_date'']
   \<and> first_date_column_range example_to_datetime example_strftime two_date_columns = None
   \<and> map_sum (\<lambda>e. e) (\<lambda>(report, df1). date_range report)
        (validate_data_structure example_to_datetime example_strftime two_date_columns)
       = Inr (Some (''2024-01-01'', ''2024-07-01''))"
  by code_simp

text \<open>
  C8, amended. For a table whose column labels are all strings, the validator returns a
  report, and its date range is that of the first column, in column order, whose
  lowercased label contains \<open>date\<close>, whose label is on no other column, and that has at
  least one value that parses: the minimum and the maximum of that column's parsed values,
  the values that do not parse left out. A date column with no value that parses, or whose
  label is on several columns, is passed over for the next one. There is no range when no
  date column remains or the table is empty.
\<close>

theorem date_range_first_parsable_column:
  assumes "list_all is_name (columns df)"
  shows "\<exists>report df1.
      validate_data_structure to_datetime strftime df = Inr (report, df1)
    \<and> date_range report =
        (if is_empty df then None
         else first_parsable_date_column_range to_datetime strftime df)"
proof (cases "is_empty df")
  case True
  then show ?thesis by (simp add: validate_data_structure_def)
next
  case False
  have dc: "date_columns (columns df) = Inr (date_labels df)"
    using date_columns_names [OF assms] by (simp add: date_labels_def)
  have r: "fst (date_loop to_datetime strftime (date_labels df) df)
      = range_find to_datetime strftime df (date_labels df)"
    using date_labels_unique [of df]
    by (intro date_loop_range) (simp_all del: One_nat_def)
  obtain rg df1 where
    dl: "date_loop to_datetime strftime (date_labels df) df = (rg, df1)"
    by (cases "date_loop to_datetime strftime (date_labels df) df")
  have "rg = first_parsable_date_column_range to_datetime strftime df"
    using r dl by (simp add: first_parsable_date_column_range_def)
  then show ?thesis
    using False dl dc by (simp add: validate_data_structure_def Let_def)
qed

lemma two_date_columns_facts:
  "list_all is_name (columns two_date_columns)"
  "is_empty two_date_columns = False"
  "first_parsable_date_column_range example_to_datetime example_strftime two_date_columns
     = Some (''2024-01-01'', ''2024-07-01'')"
  by code_simp+

theorem date_range_first_parsable_column_witness:
  "list_all is_name (columns two_date_columns)
   \<and> (\<exists>report df1.
        validate_data_structure example_to_datetime example_strftime two_date_columns
          = Inr (report, df1)
      \<and> date_range report = Some (''2024-01-01'', ''2024-07-01''))"
  using date_range_first_parsable_column [OF two_date_columns_facts(1),
      of example_to_datetime example_strftime]
    two_date_columns_facts
  by simp

text \<open>
  On a table with a label that is not a string, such as a numeric header, the validator
  raises at line 418.
\<close>

lemma validate_numbered_header:
  "validate_data_structure example_to_datetime example_strftime numbered_header
     = Inl (AttributeError (no_attribute ''int'' ''lower''))"
  by code_simp

text \<open>
  C5. The validator does change the table it is given: the date column it examines is
  overwritten with the parsed values, so a date string becomes a timestamp and a string
  that is no date is lost (it becomes missing).
\<close>

theorem validate_overwrites_date_column:
  "map_sum (\<lambda>e. e) snd
     (validate_data_structure example_to_datetime example_strftime dated_table) =
     Inr \<lparr>columns = [Text ''indicator'', Text ''date''],
          rows = [(0, [Text ''ACC_OWNERSHIP'', Timestamp 19723]), (1, [Text ''USG_P2P'', Null])]\<rparr>
   \<and> map_sum (\<lambda>e. e) snd
        (validate_data_structure example_to_datetime example_strftime dated_table)
       \<noteq> Inr dated_table"
  by code_simp

section \<open>Properties of the loaders on missing input\<close>

lemma csv_names:
  "replace ''.xlsx'' ''.csv'' ''ethiopia_fi_unified_data.xlsx'' = ''ethiopia_fi_unified_data.csv''"
  "replace ''.xlsx'' ''.csv'' ''reference_codes.xlsx'' = ''reference_codes.csv''"
  "replace ''.xlsx'' ''.csv'' ''Additional Data Points Guide.xlsx'' = ''Additional Data Points Guide.csv''"
  by code_simp+

lemma extensions:
  "lower (suffix ''ethiopia_fi_unified_data.xlsx'') = ''.xlsx''"
  "lower (suffix ''ethiopia_fi_unified_data.csv'') = ''.csv''"
  "lower (suffix ''reference_codes.xlsx'') = ''.xlsx''"
  "lower (suffix ''reference_codes.csv'') = ''.csv''"
  "lower (suffix ''Additional Data Points Guide.xlsx'') = ''.xlsx''"
  "lower (suffix ''Additional Data Points Guide.csv'') = ''.csv''"
  by code_simp+

lemma download_data_paths:
  "map_of (snd (download_data fs)) ''unified_data'' =
     (if file_exists fs ''ethiopia_fi_unified_data.xlsx'' then Some ''ethiopia_fi_unified_data.xlsx''
      else if file_exists fs ''ethiopia_fi_unified_data.csv'' then Some ''ethiopia_fi_unified_data.csv''
      else None)"
  "map_of (snd (download_data fs)) ''reference_codes'' =
     (if file_exists fs ''reference_codes.xlsx'' then Some ''reference_codes.xlsx''
      else if file_exists fs ''reference_codes.csv'' then Some ''reference_codes.csv''
      else None)"
  "map_of (snd (download_data fs)) ''additional_data'' =
     (if file_exists fs ''Additional Data Points Guide.xlsx'' then Some ''Additional Data Points Guide.xlsx''
      else if file_exists fs ''Additional Data Points Guide.csv'' then Some ''Additional Data Points Guide.csv''
      else None)"
  unfolding download_data_def data_files_def Let_def
  by (simp_all add: csv_names del: replace.simps)

lemma try_possible_no_sheets: "try_possible [] ps = None"
  by (induction ps) (auto simp: sheet_names_def)

lemma resolve_no_sheets: "resolve_sheet [] = None" "resolve_reference_sheet [] = None"
  by (simp_all add: resolve_sheet_def resolve_reference_sheet_def try_possible_no_sheets
        sheet_names_def)

lemma unified_missing:
  assumes "\<not> file_exists fs ''ethiopia_fi_unified_data.xlsx''"
    and "\<not> file_exists fs ''ethiopia_fi_unified_data.csv''"
  shows "\<exists>log m. load_unified_data py_str str_ok fs = (log, Inl (FileNotFoundError m))
           \<and> Error (''Error loading unified data: '' @ m) \<in> set log"
proof -
  obtain log0 fp where d: "download_data fs = (log0, fp)" by (cases "download_data fs")
  let ?m = "''Unified data file not found. Expected: '' @ data_file ''unified_data''
              @ '' in '' @ raw_dir fs"
  have "map_of fp ''unified_data'' = None"
    using download_data_paths(1) [of fs] assms d by simp
  then have t: "unified_try py_str str_ok fs fp = ([], Inl (FileNotFoundError ?m))"
    by (simp add: unified_try_def read_unified_def)
  let ?log = "log0 @ [] @ [Error (''Error loading unified data: '' @ ?m), Error ''Please check:'',
          Error ''1. File exists in data/raw/ folder'', Error ''2. File is not open in Excel'',
          Error ''3. File format is correct'']"
  have e: "load_unified_data py_str str_ok fs = (?log, Inl (FileNotFoundError ?m))"
    by (simp add: load_unified_data_def d t)
  have m: "Error (''Error loading unified data: '' @ ?m) \<in> set ?log"
    by simp
  show ?thesis
    by (rule exI [of _ ?log], rule exI [of _ ?m], rule conjI [OF e m])
qed

lemma unified_no_sheet:
  assumes "raw_files fs ''ethiopia_fi_unified_data.xlsx'' = Some (Spreadsheet [])"
  shows "\<exists>log m. load_unified_data py_str str_ok fs = (log, Inl (ValueError m))
           \<and> Error (''Error loading unified data: '' @ m) \<in> set log"
proof -
  obtain log0 fp where d: "download_data fs = (log0, fp)" by (cases "download_data fs")
  let ?m = "''Loaded dataframe is empty''"
  have "map_of fp ''unified_data'' = Some ''ethiopia_fi_unified_data.xlsx''"
    using download_data_paths(1) [of fs] assms d by (simp add: file_exists_def)
  then have t: "unified_try py_str str_ok fs fp = ([], Inl (ValueError ?m))"
    using assms
    by (simp add: unified_try_def read_unified_def extensions ExcelFile_def resolve_no_sheets)
  let ?log = "log0 @ [] @ [Error (''Error loading unified data: '' @ ?m), Error ''Please check:'',
          Error ''1. File exists in data/raw/ folder'', Error ''2. File is not open in Excel'',
          Error ''3. File format is correct'']"
  have e: "load_unified_data py_str str_ok fs = (?log, Inl (ValueError ?m))"
    by (simp add: load_unified_data_def d t)
  have m: "Error (''Error loading unified data: '' @ ?m) \<in> set ?log"
    by simp
  show ?thesis
    by (rule exI [of _ ?log], rule exI [of _ ?m], rule conjI [OF e m])
qed

lemma reference_missing:
  assumes "\<not> file_exists fs ''reference_codes.xlsx''"
    and "\<not> file_exists fs ''reference_codes.csv''"
  shows "\<exists>log m. load_reference_codes str_ok fs = (log, Inl (FileNotFoundError m))
           \<and> Error (''Error loading reference codes: '' @ m) \<in> set log"
proof -
  obtain log0 fp where d: "download_data fs = (log0, fp)" by (cases "download_data fs")
  let ?m = "''Reference codes file not found. Expected: '' @ data_file ''reference_codes''
              @ '' in '' @ raw_dir fs"
  have "map_of fp ''reference_codes'' = None"
    using download_data_paths(2) [of fs] assms d by simp
  then have t: "reference_try str_ok fs fp = Inl (FileNotFoundError ?m)"
    by (simp add: reference_try_def)
  let ?log = "log0 @ [Error (''Error loading reference codes: '' @ ?m)]"
  have e: "load_reference_codes str_ok fs = (?log, Inl (FileNotFoundError ?m))"
    by (simp add: load_reference_codes_def d t)
  have m: "Error (''Error loading reference codes: '' @ ?m) \<in> set ?log"
    by simp
  show ?thesis
    by (rule exI [of _ ?log], rule exI [of _ ?m], rule conjI [OF e m])
qed

lemma reference_no_sheet:
  assumes "raw_files fs ''reference_codes.xlsx'' = Some (Spreadsheet [])"
  shows "\<exists>log m. load_reference_codes str_ok fs = (log, Inl (ValueError m))
           \<and> Error (''Error loading reference codes: '' @ m) \<in> set log"
proof -
  obtain log0 fp where d: "download_data fs = (log0, fp)" by (cases "download_data fs")
  let ?m = "''Loaded reference codes dataframe is empty''"
  have "map_of fp ''reference_codes'' = Some ''reference_codes.xlsx''"
    using download_data_paths(2) [of fs] assms d by (simp add: file_exists_def)
  then have t: "reference_try str_ok fs fp = Inl (ValueError ?m)"
    using assms
    by (simp add: reference_try_def extensions ExcelFile_def resolve_no_sheets)
  let ?log = "log0 @ [Error (''Error loading reference codes: '' @ ?m)]"
  have e: "load_reference_codes str_ok fs = (?log, Inl (ValueError ?m))"
    by (simp add: load_reference_codes_def d t)
  have m: "Error (''Error loading reference codes: '' @ ?m) \<in> set ?log"
    by simp
  show ?thesis
    by (rule exI [of _ ?log], rule exI [of _ ?m], rule conjI [OF e m])
qed

lemma guide_missing:
  assumes "\<not> file_exists fs ''Additional Data Points Guide.xlsx''"
    and "\<not> file_exists fs ''Additional Data Points Guide.csv''"
  shows "\<exists>log m. load_additional_data_guide fs = (log, Inr [])
           \<and> Error (''Error loading additional data guide: '' @ m) \<in> set log"
proof -
  obtain log0 fp where d: "download_data fs = (log0, fp)" by (cases "download_data fs")
  let ?m = "''Additional data guide not found. Expected: '' @ data_file ''additional_data''
              @ '' in '' @ raw_dir fs"
  have "map_of fp ''additional_data'' = None"
    using download_data_paths(3) [of fs] assms d by simp
  then have t: "guide_try fs fp = Inl (FileNotFoundError ?m)"
    by (simp add: guide_try_def)
  let ?log = "log0 @ [Error (''Error loading additional data guide: '' @ ?m)]"
  have e: "load_additional_data_guide fs = (?log, Inr [])"
    by (simp add: load_additional_data_guide_def d t)
  have m: "Error (''Error loading additional data guide: '' @ ?m) \<in> set ?log"
    by simp
  show ?thesis
    by (rule exI [of _ ?log], rule exI [of _ ?m], rule conjI [OF e m])
qed

text \<open>
  C4, as the claim states it, fails: with no guide file in the raw directory,
  \<open>load_additional_data_guide\<close> does not raise; it returns the empty dict.
\<close>

theorem guide_missing_counterexample:
  "\<not> file_exists no_files ''Additional Data Points Guide.xlsx''
   \<and> \<not> file_exists no_files ''Additional Data Points Guide.csv''
   \<and> snd (load_additional_data_guide no_files) = Inr []"
proof -
  have a: "\<not> file_exists no_files ''Additional Data Points Guide.xlsx''"
    and b: "\<not> file_exists no_files ''Additional Data Points Guide.csv''"
    by (simp_all add: file_exists_def no_files_def)
  obtain log m where "load_additional_data_guide no_files = (log, Inr [])"
    using guide_missing [OF a b] by (elim exE conjE)
  then have "snd (load_additional_data_guide no_files) = Inr []" by simp
  then show ?thesis by (intro conjI a b)
qed

text \<open>
  C4, amended. When the file of the unified data or of the reference codes is missing, or
  has no worksheet, \<open>load_unified_data\<close> and \<open>load_reference_codes\<close> log an error
  record that carries the exception's message and raise the exception to the caller
  (\<^verbatim>\<open>FileNotFoundError\<close> for the file, \<^verbatim>\<open>ValueError\<close> for the worksheet). When
  the guide file is missing, \<open>load_additional_data_guide\<close> logs an error record as well
  and returns the empty dict.
\<close>

theorem missing_input_outcomes:
  "(\<not> file_exists fs ''ethiopia_fi_unified_data.xlsx''
      \<and> \<not> file_exists fs ''ethiopia_fi_unified_data.csv''
    \<longrightarrow> (\<exists>log m. load_unified_data py_str str_ok fs = (log, Inl (FileNotFoundError m))
            \<and> Error (''Error loading unified data: '' @ m) \<in> set log))
   \<and> (raw_files fs ''ethiopia_fi_unified_data.xlsx'' = Some (Spreadsheet [])
    \<longrightarrow> (\<exists>log m. load_unified_data py_str str_ok fs = (log, Inl (ValueError m))
            \<and> Error (''Error loading unified data: '' @ m) \<in> set log))
   \<and> (\<not> file_exists fs ''reference_codes.xlsx'' \<and> \<not> file_exists fs ''reference_codes.csv''
    \<longrightarrow> (\<exists>log m. load_reference_codes str_ok fs = (log, Inl (FileNotFoundError m))
            \<and> Error (''Error loading reference codes: '' @ m) \<in> set log))
   \<and> (raw_files fs ''reference_codes.xlsx'' = Some (Spreadsheet [])
    \<longrightarrow> (\<exists>log m. load_reference_codes str_ok fs = (log, Inl (ValueError m))
            \<and> Error (''Error loading reference codes: '' @ m) \<in> set log))
   \<and> (\<not> file_exists fs ''Additional Data Points Guide.xlsx''
      \<and> \<not> file_exists fs ''Additional Data Points Guide.csv''
    \<longrightarrow> (\<exists>log m. load_additional_data_guide fs = (log, Inr [])
            \<and> Error (''Error loading additional data guide: '' @ m) \<in> set log))"
  apply (intro conjI impI)
      apply (erule conjE, erule (1) unified_missing)
     apply (erule unified_no_sheet)
    apply (erule conjE, erule (1) reference_missing)
   apply (erule reference_no_sheet)
  apply (erule conjE, erule (1) guide_missing)
  done

theorem missing_input_outcomes_witness:
  "(\<exists>log m. load_unified_data object_str holds_a_name no_files = (log, Inl (FileNotFoundError m))
      \<and> Error (''Error loading unified data: '' @ m) \<in> set log)
   \<and> (\<exists>log m. load_unified_data object_str holds_a_name no_sheets = (log, Inl (ValueError m))
      \<and> Error (''Error loading unified data: '' @ m) \<in> set log)
   \<and> (\<exists>log m. load_reference_codes holds_a_name no_files = (log, Inl (FileNotFoundError m))
      \<and> Error (''Error loading reference codes: '' @ m) \<in> set log)
   \<and> (\<exists>log m. load_reference_codes holds_a_name no_sheets = (log, Inl (ValueError m))
      \<and> Error (''Error loading reference codes: '' @ m) \<in> set log)
   \<and> (\<exists>log m. load_additional_data_guide no_files = (log, Inr [])
      \<and> Error (''Error loading additional data guide: '' @ m) \<in> set log)"
proof -
  have a: "\<not> file_exists no_files p" for p
    by (simp add: file_exists_def no_files_def)
  have b: "raw_files no_sheets ''ethiopia_fi_unified_data.xlsx'' = Some (Spreadsheet [])"
    "raw_files no_sheets ''reference_codes.xlsx'' = Some (Spreadsheet [])"
    by (simp_all add: no_sheets_def)
  note t1 = missing_input_outcomes [where fs = no_files and py_str = object_str
      and str_ok = holds_a_name]
  note t2 = missing_input_outcomes [where fs = no_sheets and py_str = object_str
      and str_ok = holds_a_name]
  note c1 = t1 [THEN conjunct1, THEN mp, OF conjI [OF a a]]
  note c2 = t2 [THEN conjunct2, THEN conjunct1, THEN mp, OF b(1)]
  note c3 = t1 [THEN conjunct2, THEN conjunct2, THEN conjunct1, THEN mp, OF conjI [OF a a]]
  note c4 = t2 [THEN conjunct2, THEN conjunct2, THEN conjunct2, THEN conjunct1, THEN mp, OF b(2)]
  note c5 = t1 [THEN conjunct2, THEN conjunct2, THEN conjunct2, THEN conjunct2, THEN mp,
      OF conjI [OF a a]]
  show ?thesis
    by (intro conjI) (rule c1 c2 c3 c4 c5)+
qed

end
